theory Spec2Isabelle
  imports Complex_Main
begin

section \<open>JavaScript values and strings\<close>

text \<open>
  The service layer (\<^verbatim>\<open>services/geminiService.ts\<close>) works on the value returned by
  \<^verbatim>\<open>response.json()\<close>, which TypeScript types as \<^verbatim>\<open>any\<close>. The model keeps that value
  as a JSON tree and writes out what JavaScript does with it: property reads, the
  \<^verbatim>\<open>||\<close> operator, method calls on values of the wrong type.

  Strings are lists of code units. The model covers code units below 256 (ASCII and the
  Latin-1 supplement), on which \<^verbatim>\<open>toLowerCase\<close> and \<^verbatim>\<open>trim\<close> are as written below.
  A number is its parsed numeric value; this code only ever tests a number against zero.
  An object is the association list of its own properties after parsing (keys distinct).
\<close>

datatype json =
    JNull
  | JBool bool
  | JNum rat
  | JStr string
  | JArr "json list"
  | JObj "(string \<times> json) list"

text \<open>A value that may be \<^verbatim>\<open>undefined\<close>: \<open>None\<close> is \<^verbatim>\<open>undefined\<close>.\<close>

type_synonym jsval = "json option"

text \<open>
  What the \<^verbatim>\<open>try\<close> blocks of the service can raise: the rejected \<^verbatim>\<open>fetch\<close>, the
  \<^verbatim>\<open>Error\<close> thrown on a response that is not ok (with status and body text), the
  \<^verbatim>\<open>SyntaxError\<close> of \<^verbatim>\<open>response.json()\<close>, and the \<^verbatim>\<open>TypeError\<close> of reading a property
  of \<^verbatim>\<open>null\<close> or calling a method a value does not have.
\<close>

datatype js_error =
    NetworkError
  | HttpError nat string
  | SyntaxError
  | TypeError

definition bindE :: "js_error + 'a \<Rightarrow> ('a \<Rightarrow> js_error + 'b) \<Rightarrow> js_error + 'b" where
  "bindE m f = (case m of Inl e \<Rightarrow> Inl e | Inr x \<Rightarrow> f x)"

fun mapE :: "('a \<Rightarrow> js_error + 'b) \<Rightarrow> 'a list \<Rightarrow> js_error + 'b list" where
  "mapE f [] = Inr []"
| "mapE f (x # xs) = bindE (f x) (\<lambda>y. bindE (mapE f xs) (\<lambda>ys. Inr (y # ys)))"

text \<open>JavaScript truthiness of a parsed JSON value.\<close>

fun truthy :: "json \<Rightarrow> bool" where
  "truthy JNull = False"
| "truthy (JBool b) = b"
| "truthy (JNum n) = (n \<noteq> 0)"
| "truthy (JStr s) = (s \<noteq> [])"
| "truthy (JArr xs) = True"
| "truthy (JObj kvs) = True"

text \<open>\<^verbatim>\<open>v || d\<close>, for a default \<open>d\<close> that is a JSON value.\<close>

fun js_or :: "jsval \<Rightarrow> json \<Rightarrow> json" where
  "js_or None d = d"
| "js_or (Some v) d = (if truthy v then v else d)"

text \<open>
  \<^verbatim>\<open>v.k\<close> for the property names this code reads (none of them is a built-in property
  of strings, numbers, booleans or arrays): a \<^verbatim>\<open>TypeError\<close> on \<^verbatim>\<open>null\<close>, the property
  of an object, \<^verbatim>\<open>undefined\<close> on everything else.
\<close>

fun js_get :: "json \<Rightarrow> string \<Rightarrow> js_error + jsval" where
  "js_get JNull k = Inl TypeError"
| "js_get (JObj kvs) k = Inr (map_of kvs k)"
| "js_get v k = Inr None"

text \<open>
  \<^verbatim>\<open>v.map(f)\<close>: only an array has the method. On every other JSON value the property
  \<^verbatim>\<open>map\<close> is \<^verbatim>\<open>undefined\<close> or, on an object with such a key, a JSON value that is
  not a function; the call raises a \<^verbatim>\<open>TypeError\<close>.
\<close>

fun js_map :: "json \<Rightarrow> (json \<Rightarrow> js_error + 'a) \<Rightarrow> js_error + 'a list" where
  "js_map (JArr xs) f = mapE f xs"
| "js_map v f = Inl TypeError"

definition toLowerCase_char :: "char \<Rightarrow> char" where
  "toLowerCase_char c =
     (let n = (of_char c :: nat)
      in if (65 \<le> n \<and> n \<le> 90) \<or> (192 \<le> n \<and> n \<le> 222 \<and> n \<noteq> 215)
         then char_of (n + 32) else c)"

definition toLowerCase :: "string \<Rightarrow> string" where
  "toLowerCase s = map toLowerCase_char s"

text \<open>
  The white space and line terminators that \<^verbatim>\<open>trim\<close> removes, among code units below
  256: TAB, LF, VT, FF, CR, SPACE and NO-BREAK SPACE.
\<close>

definition is_whitespace :: "char \<Rightarrow> bool" where
  "is_whitespace c = ((of_char c :: nat) \<in> {9, 10, 11, 12, 13, 32, 160})"

definition trim :: "string \<Rightarrow> string" where
  "trim s = rev (dropWhile is_whitespace (rev (dropWhile is_whitespace s)))"

text \<open>\<^verbatim>\<open>v.toLowerCase()\<close> on a JSON value: only a string has the method.\<close>

fun js_toLowerCase :: "json \<Rightarrow> js_error + string" where
  "js_toLowerCase (JStr s) = Inr (toLowerCase s)"
| "js_toLowerCase v = Inl TypeError"

section \<open>Domain types\<close>

text \<open>
  \<^verbatim>\<open>Sentiment\<close> and \<^verbatim>\<open>Frequency\<close> are TypeScript string enums: at run time a member is
  its string, and \<^verbatim>\<open>normalized as Frequency\<close> returns the string unchanged. The impact
  level is the string literal union \<^verbatim>\<open>'low' | 'medium' | 'high'\<close>.
\<close>

type_synonym Sentiment = string
type_synonym Frequency = string
type_synonym ImpactLevel = string

definition Sentiment_POSITIVE :: Sentiment where "Sentiment_POSITIVE = ''positive''"
definition Sentiment_NEUTRAL :: Sentiment where "Sentiment_NEUTRAL = ''neutral''"
definition Sentiment_NEGATIVE :: Sentiment where "Sentiment_NEGATIVE = ''negative''"

definition Frequency_LOW :: Frequency where "Frequency_LOW = ''low''"
definition Frequency_MEDIUM :: Frequency where "Frequency_MEDIUM = ''medium''"
definition Frequency_HIGH :: Frequency where "Frequency_HIGH = ''high''"

definition Sentiment_members :: "Sentiment list" where
  "Sentiment_members = [Sentiment_POSITIVE, Sentiment_NEUTRAL, Sentiment_NEGATIVE]"

definition Frequency_members :: "Frequency list" where
  "Frequency_members = [Frequency_LOW, Frequency_MEDIUM, Frequency_HIGH]"

definition ImpactLevel_members :: "ImpactLevel list" where
  "ImpactLevel_members = [''low'', ''medium'', ''high'']"

text \<open>
  The fields of the results are typed in \<^verbatim>\<open>types.ts\<close>, but the service fills several of
  them with \<^verbatim>\<open>raw || default\<close>: at run time such a field holds whatever truthy JSON
  value the backend sent. Those fields are \<^typ>\<open>json\<close> here.
\<close>

record PainPoint =
  pp_issue :: json
  pp_frequency_estimate :: Frequency
  pp_example_review_excerpt :: json

record PositiveFeature =
  pf_feature :: json
  pf_frequency_estimate :: Frequency
  pf_example_review_excerpt :: json

record CompetitiveGap =
  cg_gap :: json
  cg_competitor_advantage :: json

record ReviewAnalysisResponse =
  overall_sentiment :: Sentiment
  top_pain_points :: "PainPoint list"
  top_positive_features :: "PositiveFeature list"
  competitive_gaps :: "CompetitiveGap list"
  actionable_recommendations :: json

section \<open>Enum helpers of the service\<close>

definition toFrequency :: "jsval \<Rightarrow> js_error + Frequency" where
  "toFrequency freq =
     bindE (js_toLowerCase (js_or freq (JStr ''''))) (\<lambda>l.
       let normalized = trim l
       in if normalized = ''low'' \<or> normalized = ''medium'' \<or> normalized = ''high''
          then Inr normalized
          else Inr Frequency_MEDIUM)"

definition toSentiment :: "jsval \<Rightarrow> js_error + Sentiment" where
  "toSentiment sent =
     bindE (js_toLowerCase (js_or sent (JStr ''''))) (\<lambda>l.
       let normalized = trim l
       in if normalized = ''positive'' \<or> normalized = ''neutral'' \<or> normalized = ''negative''
          then Inr normalized
          else Inr Sentiment_NEUTRAL)"

definition toImpact :: "jsval \<Rightarrow> js_error + ImpactLevel" where
  "toImpact impact =
     bindE (js_toLowerCase (js_or impact (JStr ''''))) (\<lambda>l.
       let normalized = trim l
       in if normalized = ''low'' \<or> normalized = ''medium'' \<or> normalized = ''high''
          then Inr normalized
          else Inr ''medium'')"

text \<open>
  The enum rule in the words of the specification: lower-case and trim the raw string;
  a recognised member is used, anything else becomes the enum's default.
\<close>

definition normalize_enum_spec :: "string list \<Rightarrow> string \<Rightarrow> string \<Rightarrow> string" where
  "normalize_enum_spec members dflt raw =
     (let n = trim (toLowerCase raw) in if n \<in> set members then n else dflt)"

section \<open>Review analysis\<close>

text \<open>The three callbacks passed to \<^verbatim>\<open>map\<close> in \<^verbatim>\<open>analyzeReviews\<close>.\<close>

definition toPainPoint :: "json \<Rightarrow> js_error + PainPoint" where
  "toPainPoint point =
     bindE (js_get point ''issue'') (\<lambda>i.
     bindE (js_get point ''frequency_estimate'') (\<lambda>fr.
     bindE (toFrequency fr) (\<lambda>f.
     bindE (js_get point ''example_review_excerpt'') (\<lambda>e.
       Inr \<lparr> pp_issue = js_or i (JStr ''Unknown issue''),
             pp_frequency_estimate = f,
             pp_example_review_excerpt = js_or e (JStr ''No example provided'') \<rparr>))))"

definition toPositiveFeature :: "json \<Rightarrow> js_error + PositiveFeature" where
  "toPositiveFeature feature =
     bindE (js_get feature ''feature'') (\<lambda>i.
     bindE (js_get feature ''frequency_estimate'') (\<lambda>fr.
     bindE (toFrequency fr) (\<lambda>f.
     bindE (js_get feature ''example_review_excerpt'') (\<lambda>e.
       Inr \<lparr> pf_feature = js_or i (JStr ''Unknown feature''),
             pf_frequency_estimate = f,
             pf_example_review_excerpt = js_or e (JStr ''No example provided'') \<rparr>))))"

definition toCompetitiveGap :: "json \<Rightarrow> js_error + CompetitiveGap" where
  "toCompetitiveGap gap =
     bindE (js_get gap ''gap'') (\<lambda>g.
     bindE (js_get gap ''competitor_advantage'') (\<lambda>a.
       Inr \<lparr> cg_gap = js_or g (JStr ''Unknown gap''),
             cg_competitor_advantage = js_or a (JStr ''Unknown advantage'') \<rparr>))"

text \<open>The array literal to the right of \<^verbatim>\<open>||\<close> in \<^verbatim>\<open>actionable_recommendations\<close>.\<close>

definition default_actionable_recommendations :: json where
  "default_actionable_recommendations = JArr [JStr ''No specific recommendations available'']"

text \<open>
  The object literal that \<^verbatim>\<open>analyzeReviews\<close> returns on the success path, its
  properties evaluated in the order written.
\<close>

definition normalizeReviewAnalysis :: "json \<Rightarrow> js_error + ReviewAnalysisResponse" where
  "normalizeReviewAnalysis result =
     bindE (js_get result ''overall_sentiment'') (\<lambda>rs.
     bindE (toSentiment rs) (\<lambda>s.
     bindE (js_get result ''top_pain_points'') (\<lambda>rp.
     bindE (js_map (js_or rp (JArr [])) toPainPoint) (\<lambda>ps.
     bindE (js_get result ''top_positive_features'') (\<lambda>rf.
     bindE (js_map (js_or rf (JArr [])) toPositiveFeature) (\<lambda>fs.
     bindE (js_get result ''competitive_gaps'') (\<lambda>rg.
     bindE (js_map (js_or rg (JArr [])) toCompetitiveGap) (\<lambda>gs.
     bindE (js_get result ''actionable_recommendations'') (\<lambda>ra.
       Inr \<lparr> overall_sentiment = s,
             top_pain_points = ps,
             top_positive_features = fs,
             competitive_gaps = gs,
             actionable_recommendations =
               js_or ra default_actionable_recommendations \<rparr>)))))))))"

subsection \<open>The request and its outcome\<close>

text \<open>The fetch of one request, as the service sees it.\<close>

record response =
  resp_ok :: bool
  resp_status :: nat
  resp_statusText :: string
  resp_text :: string
  resp_json :: "json option"

text \<open>
  \<open>resp_json\<close> is what \<^verbatim>\<open>await response.json()\<close> yields: \<open>None\<close> when the body does not
  parse and the promise rejects. \<open>Rejected\<close> is a \<^verbatim>\<open>fetch\<close> that rejects (no response).
\<close>

datatype fetch_outcome = Rejected | Resolved response

text \<open>
  The first half of each \<^verbatim>\<open>try\<close> block, the same in the three operations: await the
  fetch, throw on a response that is not ok, parse the body.
\<close>

definition fetch_json :: "fetch_outcome \<Rightarrow> js_error + json" where
  "fetch_json out =
     (case out of
        Rejected \<Rightarrow> Inl NetworkError
      | Resolved r \<Rightarrow>
          if \<not> resp_ok r then Inl (HttpError (resp_status r) (resp_text r))
          else (case resp_json r of None \<Rightarrow> Inl SyntaxError | Some j \<Rightarrow> Inr j))"

subsection \<open>The operation\<close>

text \<open>The object returned by the \<^verbatim>\<open>catch\<close> block of \<^verbatim>\<open>analyzeReviews\<close>.\<close>

definition analyzeReviews_fallback :: ReviewAnalysisResponse where
  "analyzeReviews_fallback =
     \<lparr> overall_sentiment = Sentiment_POSITIVE,
       top_pain_points =
         [\<lparr> pp_issue = JStr ''Shipping time could be faster'',
            pp_frequency_estimate = Frequency_MEDIUM,
            pp_example_review_excerpt =
              JStr ''Great product but delivery took longer than expected'' \<rparr>,
          \<lparr> pp_issue = JStr ''Packaging could be improved'',
            pp_frequency_estimate = Frequency_LOW,
            pp_example_review_excerpt =
              JStr ''Item arrived with slightly damaged packaging'' \<rparr>],
       top_positive_features =
         [\<lparr> pf_feature = JStr ''Build quality'',
            pf_frequency_estimate = Frequency_HIGH,
            pf_example_review_excerpt = JStr ''Very sturdy and well-made, feels premium'' \<rparr>,
          \<lparr> pf_feature = JStr ''Easy to use'',
            pf_frequency_estimate = Frequency_MEDIUM,
            pf_example_review_excerpt = JStr ''Simple setup and intuitive controls'' \<rparr>],
       competitive_gaps =
         [\<lparr> cg_gap = JStr ''Faster shipping options'',
            cg_competitor_advantage = JStr ''Competitors offer 2-day delivery'' \<rparr>],
       actionable_recommendations =
         JArr [JStr ''Improve logistics to reduce delivery times'',
               JStr ''Highlight build quality in marketing materials'',
               JStr ''Offer optional expedited shipping''] \<rparr>"

text \<open>
  \<^verbatim>\<open>analyzeReviews\<close>: the request carries the two texts; \<open>out\<close> is how its fetch ends.
  Whatever the \<^verbatim>\<open>try\<close> block raises, the \<^verbatim>\<open>catch\<close> block returns the fallback.
\<close>

definition analyzeReviews :: "string \<Rightarrow> string \<Rightarrow> fetch_outcome \<Rightarrow> ReviewAnalysisResponse" where
  "analyzeReviews productReviews competitorReviews out =
     (case bindE (fetch_json out) normalizeReviewAnalysis of
        Inr r \<Rightarrow> r
      | Inl e \<Rightarrow> analyzeReviews_fallback)"

section \<open>Listing generation\<close>

record ListingInput =
  productName :: string
  category :: string
  features :: string
  targetAudience :: string
  brandTone :: string

record ListingGenerationResponse =
  product_title_variants :: json
  bullet_point_variants :: json
  full_description_variants :: json
  primary_keywords :: json
  secondary_keywords :: json

text \<open>
  The array literals to the right of \<^verbatim>\<open>||\<close> on the success path of
  \<^verbatim>\<open>generateListing\<close>, one per field.
\<close>

definition default_product_title_variants :: "ListingInput \<Rightarrow> json" where
  "default_product_title_variants input =
     JArr [JStr (productName input @ '' - Premium Quality''),
           JStr (''Professional '' @ productName input),
           JStr (productName input @ '' | Best in Class'')]"

definition default_bullet_point_variants :: json where
  "default_bullet_point_variants =
     JArr [JArr [JStr ''High-quality materials and construction'',
                 JStr ''Easy to use and maintain'',
                 JStr ''Durable and long-lasting''],
           JArr [JStr ''Professional-grade performance'',
                 JStr ''Versatile for multiple applications'',
                 JStr ''Excellent value for money'']]"

definition default_full_description_variants :: "ListingInput \<Rightarrow> json" where
  "default_full_description_variants input =
     JArr [JStr (''Introducing our premium '' @ productName input
             @ '', designed for excellence in the '' @ category input
             @ '' category. Perfect for '' @ targetAudience input
             @ '', this product combines breakthrough technology with elegant ''
             @ toLowerCase (brandTone input) @ '' design. Features include: ''
             @ features input @ ''.''),
           JStr (''Experience superior performance with the '' @ productName input
             @ ''. Engineered for '' @ targetAudience input
             @ '', every detail has been optimized for your success. This ''
             @ category input @ '' solution offers '' @ features input
             @ '' in a package designed to exceed expectations.'')]"

definition default_primary_keywords :: "ListingInput \<Rightarrow> json" where
  "default_primary_keywords input =
     JArr [JStr (trim (toLowerCase (productName input))),
           JStr (trim (toLowerCase (category input))),
           JStr ''premium'', JStr ''professional'', JStr ''quality'']"

definition default_secondary_keywords :: json where
  "default_secondary_keywords =
     JArr [JStr ''buy'', JStr ''best'', JStr ''review'', JStr ''sale'',
           JStr ''discount'', JStr ''2024'']"

text \<open>The object literal of the success path of \<^verbatim>\<open>generateListing\<close>.\<close>

definition normalizeListing :: "ListingInput \<Rightarrow> json \<Rightarrow> js_error + ListingGenerationResponse" where
  "normalizeListing input result =
     bindE (js_get result ''product_title_variants'') (\<lambda>rt.
     bindE (js_get result ''bullet_point_variants'') (\<lambda>rb.
     bindE (js_get result ''full_description_variants'') (\<lambda>rd.
     bindE (js_get result ''primary_keywords'') (\<lambda>rp.
     bindE (js_get result ''secondary_keywords'') (\<lambda>rs.
       Inr \<lparr> product_title_variants = js_or rt (default_product_title_variants input),
             bullet_point_variants = js_or rb default_bullet_point_variants,
             full_description_variants = js_or rd (default_full_description_variants input),
             primary_keywords = js_or rp (default_primary_keywords input),
             secondary_keywords = js_or rs default_secondary_keywords \<rparr>)))))"

text \<open>The object returned by the \<^verbatim>\<open>catch\<close> block of \<^verbatim>\<open>generateListing\<close>.\<close>

definition generateListing_fallback :: "ListingInput \<Rightarrow> ListingGenerationResponse" where
  "generateListing_fallback input =
     \<lparr> product_title_variants = JArr
         [JStr (productName input @ '' - Professional Edition''),
          JStr (''Premium '' @ productName input @ '' | High Performance''),
          JStr (productName input @ '' Pro - Advanced Technology'')],
       bullet_point_variants = JArr
         [JArr [JStr (''Advanced '' @ category input @ '' technology''),
                JStr ''Durable materials built to last'',
                JStr ''Easy to use with intuitive controls'',
                JStr ''Backed by 2-year manufacturer warranty'',
                JStr ''Trusted by professionals worldwide''],
          JArr [JStr ''Cutting-edge innovation at an affordable price'',
                JStr ''Ergonomic design for comfortable extended use'',
                JStr ''Low maintenance requirements'',
                JStr ''Compatible with industry-standard accessories'',
                JStr ''Fast shipping and reliable delivery'']],
       full_description_variants = JArr
         [JStr (''This '' @ productName input
            @ '' represents the pinnacle of innovation in the '' @ category input
            @ '' industry. Designed specifically for '' @ targetAudience input
            @ '', it combines breakthrough technology with robust construction to deliver unmatched performance. With features like ''
            @ features input @ '', it's the perfect solution for demanding professionals.''),
          JStr (''Elevate your experience with our '' @ productName input
            @ '', engineered to exceed expectations. This exceptional '' @ category input
            @ '' product offers '' @ features input @ '' in a package designed for ''
            @ targetAudience input
            @ ''. Built with precision and tested for reliability, it represents the smart choice for those who value quality and results.'')],
       primary_keywords = JArr
         [JStr (trim (toLowerCase (productName input))),
          JStr (trim (toLowerCase (category input))),
          JStr ''premium'', JStr ''professional'', JStr ''advanced'', JStr ''quality''],
       secondary_keywords = JArr
         [JStr ''buy'', JStr ''best'', JStr ''review'', JStr ''sale'', JStr ''discount'',
          JStr ''price'', JStr ''deal'', JStr ''2024''] \<rparr>"

definition generateListing :: "ListingInput \<Rightarrow> fetch_outcome \<Rightarrow> ListingGenerationResponse" where
  "generateListing input out =
     (case bindE (fetch_json out) (normalizeListing input) of
        Inr r \<Rightarrow> r
      | Inl e \<Rightarrow> generateListing_fallback input)"

text \<open>
  \<^verbatim>\<open>len\<close> of a result field: the number of elements of an array. A field that holds
  anything else is not a sequence and has no length.
\<close>

fun js_length :: "json \<Rightarrow> nat option" where
  "js_length (JArr xs) = Some (length xs)"
| "js_length v = None"

fun is_sequence :: "json \<Rightarrow> bool" where
  "is_sequence (JArr xs) = True"
| "is_sequence v = False"

section \<open>Prediction explanation\<close>

record PredictionInput =
  modelOutput :: string
  inputFeatures :: string
  historicalContext :: string

record PredictionFactor =
  kf_factor :: json
  kf_impact :: ImpactLevel

record PredictionExplanationResponse =
  prediction_summary :: json
  key_factors :: "PredictionFactor list"
  recommended_actions :: json
  confidence_level :: ImpactLevel

text \<open>The callback passed to \<^verbatim>\<open>map\<close> in \<^verbatim>\<open>explainPrediction\<close>.\<close>

definition toPredictionFactor :: "json \<Rightarrow> js_error + PredictionFactor" where
  "toPredictionFactor factor =
     bindE (js_get factor ''factor'') (\<lambda>f.
     bindE (js_get factor ''impact'') (\<lambda>ri.
     bindE (toImpact ri) (\<lambda>i.
       Inr \<lparr> kf_factor = js_or f (JStr ''Unknown factor''), kf_impact = i \<rparr>)))"

text \<open>The array literal to the right of \<^verbatim>\<open>||\<close> in \<^verbatim>\<open>recommended_actions\<close>.\<close>

definition default_recommended_actions :: json where
  "default_recommended_actions =
     JArr [JStr ''Monitor market trends closely'',
           JStr ''Collect additional performance data'',
           JStr ''Consider A/B testing different strategies'']"

definition normalizePrediction :: "json \<Rightarrow> js_error + PredictionExplanationResponse" where
  "normalizePrediction result =
     bindE (js_get result ''prediction_summary'') (\<lambda>rs.
     bindE (js_get result ''key_factors'') (\<lambda>rk.
     bindE (js_map (js_or rk (JArr [])) toPredictionFactor) (\<lambda>ks.
     bindE (js_get result ''recommended_actions'') (\<lambda>ra.
     bindE (js_get result ''confidence_level'') (\<lambda>rc.
     bindE (toImpact rc) (\<lambda>c.
       Inr \<lparr> prediction_summary =
               js_or rs (JStr ''Model analysis suggests favorable market conditions.''),
             key_factors = ks,
             recommended_actions = js_or ra default_recommended_actions,
             confidence_level = c \<rparr>))))))"

definition explainPrediction_fallback :: PredictionExplanationResponse where
  "explainPrediction_fallback =
     \<lparr> prediction_summary = JStr
         ''The model predicts positive outcomes with moderate confidence based on available data patterns.'',
       key_factors =
         [\<lparr> kf_factor = JStr ''Customer sentiment analysis'', kf_impact = ''high'' \<rparr>,
          \<lparr> kf_factor = JStr ''Market trend alignment'', kf_impact = ''medium'' \<rparr>,
          \<lparr> kf_factor = JStr ''Competitive landscape'', kf_impact = ''low'' \<rparr>,
          \<lparr> kf_factor = JStr ''Historical performance data'', kf_impact = ''medium'' \<rparr>],
       recommended_actions = JArr
         [JStr ''Increase marketing spend by 10-15% in the next quarter'',
          JStr ''Expand product variations to capture additional market segments'',
          JStr ''Enhance customer support channels to improve satisfaction'',
          JStr ''Conduct A/B testing on pricing strategies''],
       confidence_level = ''medium'' \<rparr>"

definition explainPrediction :: "PredictionInput \<Rightarrow> fetch_outcome \<Rightarrow> PredictionExplanationResponse" where
  "explainPrediction input out =
     (case bindE (fetch_json out) normalizePrediction of
        Inr r \<Rightarrow> r
      | Inl e \<Rightarrow> explainPrediction_fallback)"

section \<open>Health probe\<close>

text \<open>
  The message of a \<^verbatim>\<open>BackendHealth\<close> is one of three texts of the source, kept by shape:
  the initial \<^verbatim>\<open>'Checking backend connection...'\<close>, the success message, which ends in
  \<^verbatim>\<open>health.port\<close>, and the failure message, which ends in the error's message. The
  optional \<^verbatim>\<open>details\<close> are not read anywhere and are left out.
\<close>

datatype health_message =
    CheckingMessage
  | ConnectedMessage jsval
  | NotConnectedMessage js_error

record BackendHealth =
  bh_connected :: bool
  bh_message :: health_message

definition testBackendConnection :: "fetch_outcome \<Rightarrow> js_error + json" where
  "testBackendConnection out =
     (case out of
        Rejected \<Rightarrow> Inl NetworkError
      | Resolved r \<Rightarrow>
          if \<not> resp_ok r then Inl (HttpError (resp_status r) (resp_statusText r))
          else (case resp_json r of None \<Rightarrow> Inl SyntaxError | Some data \<Rightarrow> Inr data))"

definition checkBackendHealth :: "fetch_outcome \<Rightarrow> BackendHealth" where
  "checkBackendHealth out =
     (case bindE (testBackendConnection out) (\<lambda>health. js_get health ''port'') of
        Inr port \<Rightarrow> \<lparr> bh_connected = True, bh_message = ConnectedMessage port \<rparr>
      | Inl e \<Rightarrow> \<lparr> bh_connected = False, bh_message = NotConnectedMessage e \<rparr>)"

section \<open>Application state and submit handlers\<close>

datatype Tab = Analysis | Listing | Prediction

record App =
  activeTab :: Tab
  productAReviews :: string
  competitorReviews :: string
  analysisResult :: "ReviewAnalysisResponse option"
  listingInput :: ListingInput
  listingResult :: "ListingGenerationResponse option"
  predInput :: PredictionInput
  predictionResult :: "PredictionExplanationResponse option"
  isLoading :: bool
  error :: "string option"
  backendHealth :: BackendHealth
  connectionRetries :: nat

text \<open>The initial values of the \<^verbatim>\<open>useState\<close> hooks of \<^verbatim>\<open>App\<close>.\<close>

definition initial_App :: App where
  "initial_App =
     \<lparr> activeTab = Analysis,
       productAReviews = [],
       competitorReviews = [],
       analysisResult = None,
       listingInput = \<lparr> productName = [], category = [], features = [],
                        targetAudience = [], brandTone = ''Professional'' \<rparr>,
       listingResult = None,
       predInput = \<lparr> modelOutput = [], inputFeatures = [], historicalContext = [] \<rparr>,
       predictionResult = None,
       isLoading = False,
       error = None,
       backendHealth = \<lparr> bh_connected = False, bh_message = CheckingMessage \<rparr>,
       connectionRetries = 0 \<rparr>"

text \<open>The network calls a submit handler can issue.\<close>

datatype request =
    AnalyzeRequest string string
  | GenerateListingRequest ListingInput
  | ExplainPredictionRequest PredictionInput

text \<open>
  Each handler up to its \<^verbatim>\<open>await\<close>: the state after the synchronous part and the
  request issued, if any. \<^verbatim>\<open>!s\<close> on a string holds exactly for the empty string.
\<close>

definition handleAnalyzeReviews :: "App \<Rightarrow> App \<times> request option" where
  "handleAnalyzeReviews a =
     (if trim (productAReviews a) = []
      then (a\<lparr>error := Some ''Provide product reviews to begin analysis.''\<rparr>, None)
      else if \<not> bh_connected (backendHealth a)
      then (a\<lparr>error :=
              Some ''Backend not connected. Please check if Python server is running.''\<rparr>,
            None)
      else (a\<lparr>isLoading := True, error := None, analysisResult := None\<rparr>,
            Some (AnalyzeRequest (productAReviews a) (competitorReviews a))))"

definition handleGenerateListing :: "App \<Rightarrow> App \<times> request option" where
  "handleGenerateListing a =
     (if productName (listingInput a) = [] \<or> features (listingInput a) = []
      then (a\<lparr>error := Some ''Product Name and Features are required for copywriting.''\<rparr>,
            None)
      else if \<not> bh_connected (backendHealth a)
      then (a\<lparr>error :=
              Some ''Backend not connected. Please check if Python server is running.''\<rparr>,
            None)
      else (a\<lparr>isLoading := True, error := None, listingResult := None\<rparr>,
            Some (GenerateListingRequest (listingInput a))))"

definition handleExplainPrediction :: "App \<Rightarrow> App \<times> request option" where
  "handleExplainPrediction a =
     (if modelOutput (predInput a) = [] \<or> inputFeatures (predInput a) = []
      then (a\<lparr>error := Some ''Prediction data and features are required.''\<rparr>, None)
      else if \<not> bh_connected (backendHealth a)
      then (a\<lparr>error :=
              Some ''Backend not connected. Please check if Python server is running.''\<rparr>,
            None)
      else (a\<lparr>isLoading := True, error := None, predictionResult := None\<rparr>,
            Some (ExplainPredictionRequest (predInput a))))"

text \<open>
  What the content container renders: the spinner while \<^verbatim>\<open>isLoading\<close>, otherwise the
  result of the active tab when there is one, otherwise its input form.
\<close>

datatype Phase = InputPhase | LoadingPhase | ResultPhase

definition phase :: "App \<Rightarrow> Phase" where
  "phase a =
     (if isLoading a then LoadingPhase
      else (case activeTab a of
              Analysis \<Rightarrow> (if analysisResult a \<noteq> None then ResultPhase else InputPhase)
            | Listing \<Rightarrow> (if listingResult a \<noteq> None then ResultPhase else InputPhase)
            | Prediction \<Rightarrow> (if predictionResult a \<noteq> None then ResultPhase else InputPhase)))"

text \<open>The handler behind the submit button of each tab.\<close>

definition submit :: "Tab \<Rightarrow> App \<Rightarrow> App \<times> request option" where
  "submit t a =
     (case t of
        Analysis \<Rightarrow> handleAnalyzeReviews a
      | Listing \<Rightarrow> handleGenerateListing a
      | Prediction \<Rightarrow> handleExplainPrediction a)"

text \<open>The required fields of each mode (section 3 of the specification).\<close>

definition required_fields :: "Tab \<Rightarrow> App \<Rightarrow> string list" where
  "required_fields t a =
     (case t of
        Analysis \<Rightarrow> [productAReviews a]
      | Listing \<Rightarrow> [productName (listingInput a), features (listingInput a)]
      | Prediction \<Rightarrow> [modelOutput (predInput a), inputFeatures (predInput a)])"

section \<open>Connection monitor\<close>

text \<open>
  The effect of \<^verbatim>\<open>App\<close> runs on mount and after every render in which
  \<^verbatim>\<open>connectionRetries\<close> has changed. It calls \<^verbatim>\<open>initializeBackend\<close>, which issues a health
  probe and, when the probe has settled, stores the health and schedules a timer if the
  probe failed and the value of \<^verbatim>\<open>connectionRetries\<close> captured by the effect is below 3.
  The timer increments \<^verbatim>\<open>connectionRetries\<close>. \<^verbatim>\<open>refreshBackendConnection\<close> (the retry
  buttons) sets the counter to 0 and issues a probe of its own.

  The run-time state is the application state together with the pending work of the
  event loop: the timers set (by their delay in milliseconds) and the probes in flight.
\<close>

datatype probe = EffectProbe nat | ManualProbe

record Runtime =
  app :: App
  timers :: "nat list"
  probes :: "probe list"
  probes_issued :: nat

definition issue_probe :: "probe \<Rightarrow> Runtime \<Rightarrow> Runtime" where
  "issue_probe p rt = rt\<lparr>probes := probes rt @ [p], probes_issued := Suc (probes_issued rt)\<rparr>"

text \<open>One run of the effect: the probe remembers the counter the effect closed over.\<close>

definition useEffect_run :: "Runtime \<Rightarrow> Runtime" where
  "useEffect_run rt = issue_probe (EffectProbe (connectionRetries (app rt))) rt"

definition mount :: "App \<Rightarrow> Runtime" where
  "mount a = useEffect_run \<lparr> app = a, timers = [], probes = [], probes_issued = 0 \<rparr>"

text \<open>
  The rest of \<^verbatim>\<open>initializeBackend\<close> and of \<^verbatim>\<open>refreshBackendConnection\<close> after the
  awaited probe has settled.
\<close>

definition probe_settled :: "probe \<Rightarrow> fetch_outcome \<Rightarrow> Runtime \<Rightarrow> Runtime" where
  "probe_settled p out rt =
     (let health = checkBackendHealth out;
          rt' = rt\<lparr>app := (app rt)\<lparr>backendHealth := health\<rparr>\<rparr>
      in case p of
           EffectProbe retries \<Rightarrow>
             if \<not> bh_connected health \<and> retries < 3
             then rt'\<lparr>timers := timers rt' @ [3000]\<rparr>
             else rt'
         | ManualProbe \<Rightarrow>
             if bh_connected health then rt'\<lparr>app := (app rt')\<lparr>error := None\<rparr>\<rparr> else rt')"

text \<open>
  The timer callback \<^verbatim>\<open>setConnectionRetries(prev => prev + 1)\<close>; the counter changes,
  so the effect runs again.
\<close>

definition timer_fired :: "Runtime \<Rightarrow> Runtime" where
  "timer_fired rt =
     useEffect_run (rt\<lparr>app := (app rt)\<lparr>connectionRetries := connectionRetries (app rt) + 1\<rparr>\<rparr>)"

text \<open>
  \<^verbatim>\<open>refreshBackendConnection\<close> up to its \<^verbatim>\<open>await\<close>: the counter is set to 0 and the
  probe issued; the render that follows runs the effect again if the counter has changed.
\<close>

definition refreshBackendConnection :: "Runtime \<Rightarrow> Runtime" where
  "refreshBackendConnection rt =
     (let changed = (connectionRetries (app rt) \<noteq> 0);
          rt' = issue_probe ManualProbe (rt\<lparr>app := (app rt)\<lparr>connectionRetries := 0\<rparr>\<rparr>)
      in if changed then useEffect_run rt' else rt')"

text \<open>
  The events of the monitor: the \<open>i\<close>-th probe in flight settles with an outcome, the
  oldest timer fires, the user presses a retry button. An event that cannot happen in a
  state (no such probe, no timer) has no successor.
\<close>

datatype event = ProbeSettles nat fetch_outcome | TimerFires | ManualRetry

fun step :: "event \<Rightarrow> Runtime \<Rightarrow> Runtime option" where
  "step (ProbeSettles i out) rt =
     (if i < length (probes rt)
      then Some (probe_settled (probes rt ! i) out
                   (rt\<lparr>probes := take i (probes rt) @ drop (Suc i) (probes rt)\<rparr>))
      else None)"
| "step TimerFires rt =
     (case timers rt of
        [] \<Rightarrow> None
      | d # ds \<Rightarrow> Some (timer_fired (rt\<lparr>timers := ds\<rparr>)))"
| "step ManualRetry rt = Some (refreshBackendConnection rt)"

fun run :: "event list \<Rightarrow> Runtime \<Rightarrow> Runtime option" where
  "run [] rt = Some rt"
| "run (e # es) rt = (case step e rt of None \<Rightarrow> None | Some rt' \<Rightarrow> run es rt')"

section \<open>Predicates used in the statements\<close>

text \<open>
  The request has failed: the fetch rejected, the status was not a success, or the body
  did not parse.
\<close>

definition request_failed :: "fetch_outcome \<Rightarrow> bool" where
  "request_failed out =
     (case out of Rejected \<Rightarrow> True | Resolved r \<Rightarrow> \<not> resp_ok r \<or> resp_json r = None)"

text \<open>
  The raw value of a field of the payload, \<^verbatim>\<open>undefined\<close> where the payload has none.
\<close>

definition raw_field :: "json \<Rightarrow> string \<Rightarrow> jsval" where
  "raw_field result k = (case js_get result k of Inr v \<Rightarrow> v | Inl e \<Rightarrow> None)"

text \<open>A raw value that \<^verbatim>\<open>||\<close> replaces by its right operand.\<close>

definition absent_or_falsy :: "jsval \<Rightarrow> bool" where
  "absent_or_falsy v = (case v of None \<Rightarrow> True | Some j \<Rightarrow> \<not> truthy j)"

text \<open>A raw value that is present, truthy and not an array.\<close>

definition truthy_non_sequence :: "jsval \<Rightarrow> bool" where
  "truthy_non_sequence v = (case v of None \<Rightarrow> False | Some j \<Rightarrow> truthy j \<and> \<not> is_sequence j)"

text \<open>A string that is not empty and consists of white space only.\<close>

definition whitespace_only :: "string \<Rightarrow> bool" where
  "whitespace_only s = (s \<noteq> [] \<and> list_all is_whitespace s)"

text \<open>The messages the submit handlers put into \<^verbatim>\<open>error\<close> when they refuse.\<close>

definition validation_message :: "Tab \<Rightarrow> string" where
  "validation_message t =
     (case t of
        Analysis \<Rightarrow> ''Provide product reviews to begin analysis.''
      | Listing \<Rightarrow> ''Product Name and Features are required for copywriting.''
      | Prediction \<Rightarrow> ''Prediction data and features are required.'')"

definition connectivity_message :: string where
  "connectivity_message = ''Backend not connected. Please check if Python server is running.''"

text \<open>A response with a success status whose body parses to \<open>j\<close>.\<close>

definition ok_response :: "json \<Rightarrow> response" where
  "ok_response j = \<lparr> resp_ok = True, resp_status = 200, resp_statusText = ''OK'',
                     resp_text = [], resp_json = Some j \<rparr>"

text \<open>A listing input for the concrete runs below.\<close>

definition sample_listing_input :: ListingInput where
  "sample_listing_input =
     \<lparr> productName = ''Desk Lamp'', category = ''Lighting'', features = ''dimmable'',
       targetAudience = ''students'', brandTone = ''Professional'' \<rparr>"

text \<open>
  Runs of the monitor in which every probe fails and nobody presses a retry button: the
  events alternate between the probe in flight settling and the timer it set firing.
\<close>

definition all_probes_fail ::
  "fetch_outcome \<Rightarrow> fetch_outcome \<Rightarrow> fetch_outcome \<Rightarrow> fetch_outcome \<Rightarrow> event list" where
  "all_probes_fail o1 o2 o3 o4 =
     [ProbeSettles 0 o1, TimerFires, ProbeSettles 0 o2, TimerFires,
      ProbeSettles 0 o3, TimerFires, ProbeSettles 0 o4]"

definition three_failed_probes :: "event list" where
  "three_failed_probes =
     [ProbeSettles 0 Rejected, TimerFires, ProbeSettles 0 Rejected, TimerFires,
      ProbeSettles 0 Rejected]"

definition four_failed_probes :: "event list" where
  "four_failed_probes = three_failed_probes @ [TimerFires, ProbeSettles 0 Rejected]"

text \<open>
  What holds of the monitor as long as nobody presses a retry button: the probes issued
  are one more than the counter, the counter is at most 3, and either the effect's probe
  is in flight, or its timer is set (and the counter below 3), or nothing is pending.
\<close>

definition automatic_invariant :: "Runtime \<Rightarrow> bool" where
  "automatic_invariant rt =
     (probes_issued rt = Suc (connectionRetries (app rt))
      \<and> connectionRetries (app rt) \<le> 3
      \<and> ((timers rt = [] \<and> probes rt = [EffectProbe (connectionRetries (app rt))])
          \<or> (timers rt = [3000] \<and> probes rt = [] \<and> connectionRetries (app rt) < 3)
          \<or> (timers rt = [] \<and> probes rt = [])))"

text \<open>A listing payload with three titles, three descriptions and three bullet lists.\<close>

definition sample_listing_payload :: json where
  "sample_listing_payload =
     JObj [(''product_title_variants'', JArr [JStr ''Lamp A'', JStr ''Lamp B'', JStr ''Lamp C'']),
           (''full_description_variants'', JArr [JStr ''first'', JStr ''second'', JStr ''third'']),
           (''bullet_point_variants'',
              JArr [JArr [JStr ''bright''], JArr [JStr ''dimmable'', JStr ''small''], JArr []])]"

text \<open>
  A review-analysis payload with two pain points, no positive features and an empty list
  of recommendations, and what normalization makes of it.
\<close>

definition sample_review_payload :: json where
  "sample_review_payload =
     JObj [(''top_pain_points'', JArr [JObj [(''issue'', JStr ''late delivery'')], JObj []]),
           (''actionable_recommendations'', JArr [])]"

definition sample_review_result :: ReviewAnalysisResponse where
  "sample_review_result =
     \<lparr> overall_sentiment = ''neutral'',
       top_pain_points =
         [\<lparr> pp_issue = JStr ''late delivery'', pp_frequency_estimate = ''medium'',
            pp_example_review_excerpt = JStr ''No example provided'' \<rparr>,
          \<lparr> pp_issue = JStr ''Unknown issue'', pp_frequency_estimate = ''medium'',
            pp_example_review_excerpt = JStr ''No example provided'' \<rparr>],
       top_positive_features = [],
       competitive_gaps = [],
       actionable_recommendations = JArr [] \<rparr>"

text \<open>A prediction input for the concrete runs below.\<close>

definition sample_prediction_input :: PredictionInput where
  "sample_prediction_input =
     \<lparr> modelOutput = ''demand up'', inputFeatures = ''price'', historicalContext = [] \<rparr>"

section \<open>Properties\<close>

subsection \<open>Failing requests\<close>

lemma request_failed_fetch_json: "request_failed out \<Longrightarrow> \<exists>e. fetch_json out = Inl e"
  by (auto simp: request_failed_def fetch_json_def split: fetch_outcome.splits)

lemma fetch_json_failed_iff: "request_failed out \<longleftrightarrow> (\<exists>e. fetch_json out = Inl e)"
  by (auto simp: request_failed_def fetch_json_def
      split: fetch_outcome.splits option.splits if_splits)

text \<open>
  Claim C1. Whatever the input, when the request fails (the fetch rejects, the status is
  not a success, or the body does not parse) each of \<^verbatim>\<open>analyzeReviews\<close>,
  \<^verbatim>\<open>generateListing\<close> and \<^verbatim>\<open>explainPrediction\<close> returns the result of its own
  \<^verbatim>\<open>catch\<close> block instead of an error; for \<^verbatim>\<open>analyzeReviews\<close> that result has
  \<^verbatim>\<open>overall_sentiment\<close> equal to \<^verbatim>\<open>positive\<close>.
\<close>

theorem fail_open:
  assumes "request_failed out"
  shows "analyzeReviews reviews competitor out = analyzeReviews_fallback
       \<and> generateListing li out = generateListing_fallback li
       \<and> explainPrediction pin out = explainPrediction_fallback
       \<and> overall_sentiment (analyzeReviews reviews competitor out) = ''positive''"
proof -
  from assms obtain e where e: "fetch_json out = Inl e"
    using request_failed_fetch_json by blast
  then show ?thesis
    by (simp add: analyzeReviews_def generateListing_def explainPrediction_def bindE_def
        analyzeReviews_fallback_def Sentiment_POSITIVE_def)
qed

theorem fail_open_witness:
  "request_failed Rejected
   \<and> analyzeReviews ''great product'' [] Rejected = analyzeReviews_fallback
   \<and> overall_sentiment (analyzeReviews ''great product'' [] Rejected) = ''positive''"
proof -
  have h: "request_failed Rejected" by (simp add: request_failed_def)
  from fail_open [OF h, of "''great product''" "[]"] h show ?thesis by blast
qed

subsection \<open>Enum normalization\<close>

lemma toSentiment_string:
  "toSentiment (Some (JStr raw)) =
     Inr (normalize_enum_spec Sentiment_members Sentiment_NEUTRAL raw)"
  by (cases raw)
     (simp_all add: toSentiment_def bindE_def normalize_enum_spec_def Let_def
        Sentiment_members_def Sentiment_NEUTRAL_def Sentiment_POSITIVE_def
        Sentiment_NEGATIVE_def toLowerCase_def trim_def)

lemma toFrequency_string:
  "toFrequency (Some (JStr raw)) =
     Inr (normalize_enum_spec Frequency_members Frequency_MEDIUM raw)"
  by (cases raw)
     (simp_all add: toFrequency_def bindE_def normalize_enum_spec_def Let_def
        Frequency_members_def Frequency_MEDIUM_def Frequency_LOW_def Frequency_HIGH_def
        toLowerCase_def trim_def)

lemma toImpact_string:
  "toImpact (Some (JStr raw)) =
     Inr (normalize_enum_spec ImpactLevel_members ''medium'' raw)"
  by (cases raw)
     (simp_all add: toImpact_def bindE_def normalize_enum_spec_def Let_def
        ImpactLevel_members_def toLowerCase_def trim_def)

lemma normalized_words:
  "trim (toLowerCase ''positive'') = ''positive''"
  "trim (toLowerCase ''neutral'') = ''neutral''"
  "trim (toLowerCase ''negative'') = ''negative''"
  "trim (toLowerCase ''low'') = ''low''"
  "trim (toLowerCase ''medium'') = ''medium''"
  "trim (toLowerCase ''high'') = ''high''"
  by code_simp+

lemma normalize_enum_spec_fixed:
  assumes "\<forall>m \<in> set ms. trim (toLowerCase m) = m" and "d \<in> set ms"
  shows "normalize_enum_spec ms d (normalize_enum_spec ms d raw) = normalize_enum_spec ms d raw"
proof -
  have mem: "normalize_enum_spec ms d raw \<in> set ms"
    using assms(2) by (simp add: normalize_enum_spec_def Let_def)
  then have "trim (toLowerCase (normalize_enum_spec ms d raw)) = normalize_enum_spec ms d raw"
    using assms(1) by blast
  then show ?thesis
    using mem by (simp add: normalize_enum_spec_def [of ms d "normalize_enum_spec ms d raw"] Let_def)
qed

text \<open>
  Claim C5. On every raw string, \<^verbatim>\<open>toSentiment\<close>, \<^verbatim>\<open>toFrequency\<close> and the impact helper
  \<^verbatim>\<open>toImpact\<close> compute what the specification's rule says: the string is lower-cased
  and trimmed; a recognised member is returned, anything else becomes the default,
  \<^verbatim>\<open>neutral\<close> for a sentiment and \<^verbatim>\<open>medium\<close> for a frequency or an impact level.
\<close>

theorem enum_normalization_as_specified:
  "toSentiment (Some (JStr raw)) = Inr (normalize_enum_spec Sentiment_members ''neutral'' raw)
   \<and> toFrequency (Some (JStr raw)) = Inr (normalize_enum_spec Frequency_members ''medium'' raw)
   \<and> toImpact (Some (JStr raw)) = Inr (normalize_enum_spec ImpactLevel_members ''medium'' raw)"
  using toSentiment_string [of raw] toFrequency_string [of raw] toImpact_string [of raw]
  by (simp add: Sentiment_NEUTRAL_def Frequency_MEDIUM_def)

theorem enum_normalization_as_specified_witness:
  "toSentiment (Some (JStr ''  POSITIVE '')) = Inr ''positive''
   \<and> toFrequency (Some (JStr ''High'')) = Inr ''high''
   \<and> toImpact (Some (JStr ''critical'')) = Inr ''medium''"
proof -
  have "normalize_enum_spec Sentiment_members ''neutral'' ''  POSITIVE '' = ''positive''"
       "normalize_enum_spec Frequency_members ''medium'' ''High'' = ''high''"
       "normalize_enum_spec ImpactLevel_members ''medium'' ''critical'' = ''medium''"
    by code_simp+
  then show ?thesis
    using enum_normalization_as_specified [of "''  POSITIVE ''"]
      enum_normalization_as_specified [of "''High''"]
      enum_normalization_as_specified [of "''critical''"]
    by simp
qed

text \<open>
  Claim C6. Enum normalization is idempotent on every raw string, whatever its case, its
  surrounding white space, and whether or not it is recognised: normalizing the
  normalized value gives that value again.
\<close>

theorem enum_normalization_idempotent:
  "bindE (toSentiment (Some (JStr raw))) (\<lambda>s. toSentiment (Some (JStr s)))
     = toSentiment (Some (JStr raw))
   \<and> bindE (toFrequency (Some (JStr raw))) (\<lambda>f. toFrequency (Some (JStr f)))
     = toFrequency (Some (JStr raw))
   \<and> bindE (toImpact (Some (JStr raw))) (\<lambda>i. toImpact (Some (JStr i)))
     = toImpact (Some (JStr raw))"
proof -
  have s: "\<forall>m \<in> set Sentiment_members. trim (toLowerCase m) = m"
    by (simp add: Sentiment_members_def Sentiment_POSITIVE_def Sentiment_NEUTRAL_def
        Sentiment_NEGATIVE_def normalized_words)
  have f: "\<forall>m \<in> set Frequency_members. trim (toLowerCase m) = m"
    by (simp add: Frequency_members_def Frequency_LOW_def Frequency_MEDIUM_def
        Frequency_HIGH_def normalized_words)
  have i: "\<forall>m \<in> set ImpactLevel_members. trim (toLowerCase m) = m"
    by (simp add: ImpactLevel_members_def normalized_words)
  have "Sentiment_NEUTRAL \<in> set Sentiment_members" "Frequency_MEDIUM \<in> set Frequency_members"
       "''medium'' \<in> set ImpactLevel_members"
    by (simp_all add: Sentiment_members_def Frequency_members_def ImpactLevel_members_def)
  then show ?thesis
    using normalize_enum_spec_fixed [OF s] normalize_enum_spec_fixed [OF f]
      normalize_enum_spec_fixed [OF i]
    by (simp add: toSentiment_string toFrequency_string toImpact_string bindE_def)
qed

subsection \<open>Reading the payload\<close>

lemma js_get_raw_field: "js_get result k = Inr v \<Longrightarrow> raw_field result k = v"
  by (simp add: raw_field_def)

lemma js_or_falsy: "absent_or_falsy v \<Longrightarrow> js_or v d = d"
  by (cases v) (simp_all add: absent_or_falsy_def)

lemma js_or_is_truthy: "truthy d \<Longrightarrow> truthy (js_or v d)"
  by (cases v) simp_all

lemma js_map_non_sequence:
  assumes "truthy_non_sequence v"
  shows "js_map (js_or v d) f = Inl TypeError"
proof (cases v)
  case None
  with assms show ?thesis by (simp add: truthy_non_sequence_def)
next
  case (Some j)
  with assms show ?thesis by (cases j) (simp_all add: truthy_non_sequence_def)
qed

lemma bindE_Inr: "bindE m f = Inr y \<longleftrightarrow> (\<exists>x. m = Inr x \<and> f x = Inr y)"
  by (cases m) (simp_all add: bindE_def)

lemma fetch_json_ok: "fetch_json (Resolved (ok_response j)) = Inr j"
  by (simp add: fetch_json_def ok_response_def)

lemma default_lengths:
  "js_length default_actionable_recommendations = Some 1"
  "js_length (default_product_title_variants li) = Some 3"
  "js_length default_bullet_point_variants = Some 2"
  "js_length (default_full_description_variants li) = Some 2"
  "js_length (default_primary_keywords li) = Some 5"
  "js_length default_secondary_keywords = Some 6"
  "js_length default_recommended_actions = Some 3"
  by (simp_all add: default_actionable_recommendations_def default_product_title_variants_def
      default_bullet_point_variants_def default_full_description_variants_def
      default_primary_keywords_def default_secondary_keywords_def default_recommended_actions_def)

subsection \<open>What a successful normalization returns\<close>

lemma normalizeReviewAnalysis_Inr:
  assumes "normalizeReviewAnalysis result = Inr r"
  shows "js_map (js_or (raw_field result ''top_pain_points'') (JArr [])) toPainPoint
           = Inr (top_pain_points r)"
    and "js_map (js_or (raw_field result ''top_positive_features'') (JArr [])) toPositiveFeature
           = Inr (top_positive_features r)"
    and "js_map (js_or (raw_field result ''competitive_gaps'') (JArr [])) toCompetitiveGap
           = Inr (competitive_gaps r)"
    and "actionable_recommendations r =
           js_or (raw_field result ''actionable_recommendations'')
             default_actionable_recommendations"
  using assms unfolding normalizeReviewAnalysis_def bindE_Inr
  by (auto simp: js_get_raw_field)

lemma normalizeListing_Inr:
  assumes "normalizeListing li result = Inr r"
  shows "product_title_variants r =
           js_or (raw_field result ''product_title_variants'') (default_product_title_variants li)"
    and "bullet_point_variants r =
           js_or (raw_field result ''bullet_point_variants'') default_bullet_point_variants"
    and "full_description_variants r =
           js_or (raw_field result ''full_description_variants'')
             (default_full_description_variants li)"
    and "primary_keywords r =
           js_or (raw_field result ''primary_keywords'') (default_primary_keywords li)"
    and "secondary_keywords r =
           js_or (raw_field result ''secondary_keywords'') default_secondary_keywords"
  using assms unfolding normalizeListing_def bindE_Inr
  by (auto simp: js_get_raw_field)

lemma normalizeListing_total:
  "result \<noteq> JNull \<Longrightarrow> \<exists>r. normalizeListing li result = Inr r"
  by (cases result) (simp_all add: normalizeListing_def bindE_def)

lemma normalizePrediction_Inr:
  assumes "normalizePrediction result = Inr r"
  shows "js_map (js_or (raw_field result ''key_factors'') (JArr [])) toPredictionFactor
           = Inr (key_factors r)"
    and "recommended_actions r =
           js_or (raw_field result ''recommended_actions'') default_recommended_actions"
  using assms unfolding normalizePrediction_def bindE_Inr
  by (auto simp: js_get_raw_field)

lemma review_analysis_defaults:
  assumes "normalizeReviewAnalysis result = Inr r"
  shows "(absent_or_falsy (raw_field result ''top_pain_points'') \<longrightarrow> top_pain_points r = [])
       \<and> (absent_or_falsy (raw_field result ''top_positive_features'') \<longrightarrow>
            top_positive_features r = [])
       \<and> (absent_or_falsy (raw_field result ''competitive_gaps'') \<longrightarrow> competitive_gaps r = [])
       \<and> (absent_or_falsy (raw_field result ''actionable_recommendations'') \<longrightarrow>
            actionable_recommendations r = default_actionable_recommendations)"
  using normalizeReviewAnalysis_Inr [OF assms]
  by (auto simp: js_or_falsy)

lemma review_analysis_non_sequence:
  assumes "normalizeReviewAnalysis result = Inr r"
  shows "\<not> truthy_non_sequence (raw_field result ''top_pain_points'')"
    and "\<not> truthy_non_sequence (raw_field result ''top_positive_features'')"
    and "\<not> truthy_non_sequence (raw_field result ''competitive_gaps'')"
  using normalizeReviewAnalysis_Inr [OF assms]
  by (auto simp: js_map_non_sequence)

lemma prediction_non_sequence:
  assumes "normalizePrediction result = Inr r"
  shows "\<not> truthy_non_sequence (raw_field result ''key_factors'')"
  using normalizePrediction_Inr [OF assms]
  by (auto simp: js_map_non_sequence)

lemma prediction_defaults:
  assumes "normalizePrediction result = Inr r"
  shows "(absent_or_falsy (raw_field result ''key_factors'') \<longrightarrow> key_factors r = [])
       \<and> (absent_or_falsy (raw_field result ''recommended_actions'') \<longrightarrow>
            recommended_actions r = default_recommended_actions
            \<and> js_length (recommended_actions r) = Some 3)"
  using normalizePrediction_Inr [OF assms]
  by (auto simp: js_or_falsy default_lengths)

subsection \<open>The operations by cases\<close>

lemma analyzeReviews_cases:
  "analyzeReviews reviews competitor out = analyzeReviews_fallback
   \<or> (\<exists>result. fetch_json out = Inr result
        \<and> normalizeReviewAnalysis result = Inr (analyzeReviews reviews competitor out))"
  by (cases "fetch_json out"; cases "normalizeReviewAnalysis (projr (fetch_json out))")
     (simp_all add: analyzeReviews_def bindE_def)

lemma generateListing_failed:
  "request_failed out \<Longrightarrow> generateListing li out = generateListing_fallback li"
  using request_failed_fetch_json [of out]
  by (auto simp: generateListing_def bindE_def)

lemma generateListing_success:
  assumes "fetch_json out = Inr result" and "result \<noteq> JNull"
  shows "normalizeListing li result = Inr (generateListing li out)"
proof -
  obtain r where "normalizeListing li result = Inr r"
    using normalizeListing_total [OF assms(2)] by blast
  with assms(1) show ?thesis by (simp add: generateListing_def bindE_def)
qed

lemma fallback_listing_lengths:
  "js_length (product_title_variants (generateListing_fallback li)) = Some 3"
  "js_length (bullet_point_variants (generateListing_fallback li)) = Some 2"
  "js_length (full_description_variants (generateListing_fallback li)) = Some 2"
  by (simp_all add: generateListing_fallback_def)

lemma default_actionable_sequence:
  "is_sequence default_actionable_recommendations" "truthy default_actionable_recommendations"
  by (simp_all add: default_actionable_recommendations_def)

lemma fallback_actionable_sequence:
  "is_sequence (actionable_recommendations analyzeReviews_fallback)"
  "truthy (actionable_recommendations analyzeReviews_fallback)"
  by (simp_all add: analyzeReviews_fallback_def)

lemma mapE_length: "mapE f xs = Inr ys \<Longrightarrow> length ys = length xs"
proof (induction xs arbitrary: ys)
  case Nil
  then show ?case by simp
next
  case (Cons x xs)
  from Cons.prems obtain y ys' where "f x = Inr y" and m: "mapE f xs = Inr ys'"
    and "ys = y # ys'"
    by (auto simp: bindE_Inr)
  with Cons.IH [OF m] show ?case by simp
qed

lemma js_map_Inr:
  assumes "js_map v f = Inr ys"
  shows "\<exists>xs. v = JArr xs \<and> length ys = length xs"
  using assms by (cases v) (simp_all add: mapE_length)

lemma analyzeReviews_success:
  "fetch_json out = Inr result \<Longrightarrow> normalizeReviewAnalysis result = Inr r \<Longrightarrow>
     analyzeReviews reviews competitor out = r"
  by (simp add: analyzeReviews_def bindE_def)

lemma analyzeReviews_caught:
  assumes "\<forall>result r. fetch_json out = Inr result \<longrightarrow> normalizeReviewAnalysis result \<noteq> Inr r"
  shows "analyzeReviews reviews competitor out = analyzeReviews_fallback"
  using analyzeReviews_cases [of reviews competitor out] assms by auto

lemma explainPrediction_success:
  "fetch_json out = Inr result \<Longrightarrow> normalizePrediction result = Inr r \<Longrightarrow>
     explainPrediction pin out = r"
  by (simp add: explainPrediction_def bindE_def)

lemma explainPrediction_caught:
  assumes "fetch_json out = Inr result" and "\<forall>r. normalizePrediction result \<noteq> Inr r"
  shows "explainPrediction pin out = explainPrediction_fallback"
  using assms by (cases "normalizePrediction result") (simp_all add: explainPrediction_def bindE_def)

lemma generateListing_null:
  "fetch_json out = Inr JNull \<Longrightarrow> generateListing li out = generateListing_fallback li"
  by (simp add: generateListing_def bindE_def normalizeListing_def)

lemma generateListing_try_raises:
  "(\<exists>e. bindE (fetch_json out) (normalizeListing li) = Inl e)
     \<longleftrightarrow> request_failed out \<or> fetch_json out = Inr JNull"
proof (cases "fetch_json out")
  case (Inl e)
  then have "request_failed out" using fetch_json_failed_iff by blast
  with Inl show ?thesis by (simp add: bindE_def)
next
  case (Inr result)
  then have nf: "\<not> request_failed out" using fetch_json_failed_iff [of out] by simp
  show ?thesis
  proof (cases "result = JNull")
    case True
    with Inr show ?thesis by (simp add: bindE_def normalizeListing_def)
  next
    case False
    then obtain r where "normalizeListing li result = Inr r"
      using normalizeListing_total by blast
    with Inr False nf show ?thesis by (simp add: bindE_def)
  qed
qed

lemma mapped_field:
  assumes "js_map (js_or v (JArr [])) f = Inr ys"
  shows "absent_or_falsy v \<longrightarrow> ys = []"
    and "\<forall>xs. v = Some (JArr xs) \<longrightarrow> length ys = length xs"
    and "\<not> truthy_non_sequence v"
proof -
  from assms obtain xs where x: "js_or v (JArr []) = JArr xs" and l: "length ys = length xs"
    using js_map_Inr by blast
  show "absent_or_falsy v \<longrightarrow> ys = []"
    using x l by (auto simp: js_or_falsy)
  show "\<forall>xs. v = Some (JArr xs) \<longrightarrow> length ys = length xs"
    using x l by auto
  show "\<not> truthy_non_sequence v"
    using assms by (auto simp: js_map_non_sequence)
qed

lemma truthy_not_null: "truthy j \<Longrightarrow> j \<noteq> JNull"
  by (cases j) simp_all

lemma is_sequence_js_or_iff:
  "is_sequence d \<Longrightarrow> is_sequence (js_or v d) \<longleftrightarrow> \<not> truthy_non_sequence v"
  by (cases v) (auto simp: truthy_non_sequence_def)

subsection \<open>Listing variants\<close>

text \<open>
  Claim C2, as amended. \<^verbatim>\<open>generateListing\<close> does not reconcile the lengths of the title,
  description and bullet-point variants. When the backend supplies all three as
  sequences they are returned as sent, in order and in full, each with the length the
  backend gave it, so they are index-aligned exactly when the backend's are. On every
  path into the \<^verbatim>\<open>catch\<close> block, which is a failed request or a body that parses to
  \<^verbatim>\<open>null\<close>, the description variants and the bullet-point variants are sequences of
  the same length, 2.
\<close>

theorem listing_variants_alignment:
  "((\<exists>e. bindE (fetch_json out) (normalizeListing li) = Inl e)
      \<longleftrightarrow> request_failed out \<or> fetch_json out = Inr JNull)
   \<and> (request_failed out \<or> fetch_json out = Inr JNull \<longrightarrow>
        js_length (full_description_variants (generateListing li out)) = Some 2
        \<and> js_length (bullet_point_variants (generateListing li out)) = Some 2)
   \<and> (fetch_json out = Inr result
        \<and> raw_field result ''product_title_variants'' = Some (JArr ts)
        \<and> raw_field result ''full_description_variants'' = Some (JArr ds)
        \<and> raw_field result ''bullet_point_variants'' = Some (JArr bs) \<longrightarrow>
      product_title_variants (generateListing li out) = JArr ts
      \<and> full_description_variants (generateListing li out) = JArr ds
      \<and> bullet_point_variants (generateListing li out) = JArr bs
      \<and> js_length (product_title_variants (generateListing li out)) = Some (length ts)
      \<and> js_length (full_description_variants (generateListing li out)) = Some (length ds)
      \<and> js_length (bullet_point_variants (generateListing li out)) = Some (length bs))"
proof (intro conjI impI)
  show "(\<exists>e. bindE (fetch_json out) (normalizeListing li) = Inl e)
      \<longleftrightarrow> request_failed out \<or> fetch_json out = Inr JNull"
    by (rule generateListing_try_raises)
next
  assume "request_failed out \<or> fetch_json out = Inr JNull"
  then have f: "generateListing li out = generateListing_fallback li"
    using generateListing_failed generateListing_null by blast
  show "js_length (full_description_variants (generateListing li out)) = Some 2"
    by (simp add: f fallback_listing_lengths)
  show "js_length (bullet_point_variants (generateListing li out)) = Some 2"
    by (simp add: f fallback_listing_lengths)
next
  assume a: "fetch_json out = Inr result
        \<and> raw_field result ''product_title_variants'' = Some (JArr ts)
        \<and> raw_field result ''full_description_variants'' = Some (JArr ds)
        \<and> raw_field result ''bullet_point_variants'' = Some (JArr bs)"
  then have "result \<noteq> JNull" by (auto simp: raw_field_def)
  with a have n: "normalizeListing li result = Inr (generateListing li out)"
    using generateListing_success by blast
  show t: "product_title_variants (generateListing li out) = JArr ts"
    using normalizeListing_Inr(1) [OF n] a by simp
  show d: "full_description_variants (generateListing li out) = JArr ds"
    using normalizeListing_Inr(3) [OF n] a by simp
  show b: "bullet_point_variants (generateListing li out) = JArr bs"
    using normalizeListing_Inr(2) [OF n] a by simp
  show "js_length (product_title_variants (generateListing li out)) = Some (length ts)"
       "js_length (full_description_variants (generateListing li out)) = Some (length ds)"
       "js_length (bullet_point_variants (generateListing li out)) = Some (length bs)"
    by (simp_all add: t d b)
qed

theorem listing_variants_alignment_witness:
  "request_failed Rejected
   \<and> js_length (full_description_variants (generateListing sample_listing_input Rejected))
       = Some 2
   \<and> js_length (bullet_point_variants (generateListing sample_listing_input Rejected))
       = Some 2
   \<and> fetch_json (Resolved (ok_response JNull)) = Inr JNull
   \<and> js_length (full_description_variants
        (generateListing sample_listing_input (Resolved (ok_response JNull)))) = Some 2
   \<and> js_length (bullet_point_variants
        (generateListing sample_listing_input (Resolved (ok_response JNull)))) = Some 2
   \<and> product_title_variants (generateListing sample_listing_input
        (Resolved (ok_response sample_listing_payload)))
      = JArr [JStr ''Lamp A'', JStr ''Lamp B'', JStr ''Lamp C'']
   \<and> js_length (product_title_variants (generateListing sample_listing_input
        (Resolved (ok_response sample_listing_payload)))) = Some 3
   \<and> js_length (full_description_variants (generateListing sample_listing_input
        (Resolved (ok_response sample_listing_payload)))) = Some 3
   \<and> js_length (bullet_point_variants (generateListing sample_listing_input
        (Resolved (ok_response sample_listing_payload)))) = Some 3"
proof -
  have h: "request_failed Rejected" by (simp add: request_failed_def)
  have n: "fetch_json (Resolved (ok_response JNull)) = Inr JNull" by (rule fetch_json_ok)
  have p: "fetch_json (Resolved (ok_response sample_listing_payload)) = Inr sample_listing_payload"
    by (rule fetch_json_ok)
  have r: "raw_field sample_listing_payload ''product_title_variants''
             = Some (JArr [JStr ''Lamp A'', JStr ''Lamp B'', JStr ''Lamp C''])"
          "raw_field sample_listing_payload ''full_description_variants''
             = Some (JArr [JStr ''first'', JStr ''second'', JStr ''third''])"
          "raw_field sample_listing_payload ''bullet_point_variants''
             = Some (JArr [JArr [JStr ''bright''], JArr [JStr ''dimmable'', JStr ''small''], JArr []])"
    by (simp_all add: raw_field_def sample_listing_payload_def)
  note f1 = listing_variants_alignment
    [where out = Rejected and li = sample_listing_input, THEN conjunct2, THEN conjunct1]
  note f2 = listing_variants_alignment
    [where out = "Resolved (ok_response JNull)" and li = sample_listing_input,
     THEN conjunct2, THEN conjunct1]
  note f3 = listing_variants_alignment
    [where out = "Resolved (ok_response sample_listing_payload)"
       and result = sample_listing_payload and li = sample_listing_input
       and ts = "[JStr ''Lamp A'', JStr ''Lamp B'', JStr ''Lamp C'']"
       and ds = "[JStr ''first'', JStr ''second'', JStr ''third'']"
       and bs = "[JArr [JStr ''bright''], JArr [JStr ''dimmable'', JStr ''small''], JArr []]",
     THEN conjunct2, THEN conjunct2]
  from f1 h have 1:
    "js_length (full_description_variants (generateListing sample_listing_input Rejected))
       = Some 2
     \<and> js_length (bullet_point_variants (generateListing sample_listing_input Rejected))
       = Some 2"
    by blast
  from f2 n have 2:
    "js_length (full_description_variants
        (generateListing sample_listing_input (Resolved (ok_response JNull)))) = Some 2
     \<and> js_length (bullet_point_variants
        (generateListing sample_listing_input (Resolved (ok_response JNull)))) = Some 2"
    by blast
  from f3 p r have 3:
    "product_title_variants (generateListing sample_listing_input
        (Resolved (ok_response sample_listing_payload)))
      = JArr [JStr ''Lamp A'', JStr ''Lamp B'', JStr ''Lamp C'']
     \<and> js_length (product_title_variants (generateListing sample_listing_input
        (Resolved (ok_response sample_listing_payload)))) = Some 3
     \<and> js_length (full_description_variants (generateListing sample_listing_input
        (Resolved (ok_response sample_listing_payload)))) = Some 3
     \<and> js_length (bullet_point_variants (generateListing sample_listing_input
        (Resolved (ok_response sample_listing_payload)))) = Some 3"
    by simp
  from h n 1 2 3 show ?thesis by blast
qed

text \<open>
  The claim as stated fails. A payload with one title, two descriptions and two bullet
  lists is returned with these lengths; and when the fetch rejects, the result has
  three titles, two descriptions and two bullet lists.
\<close>

theorem listing_variants_alignment_counterexample:
  "js_length (product_title_variants (generateListing sample_listing_input
      (Resolved (ok_response (JObj [(''product_title_variants'', JArr [JStr ''A'']),
                                    (''full_description_variants'', JArr [JStr ''d1'', JStr ''d2'']),
                                    (''bullet_point_variants'',
                                       JArr [JArr [JStr ''b1''], JArr [JStr ''b2'']])]))))) = Some 1
   \<and> js_length (full_description_variants (generateListing sample_listing_input
      (Resolved (ok_response (JObj [(''product_title_variants'', JArr [JStr ''A'']),
                                    (''full_description_variants'', JArr [JStr ''d1'', JStr ''d2'']),
                                    (''bullet_point_variants'',
                                       JArr [JArr [JStr ''b1''], JArr [JStr ''b2'']])]))))) = Some 2
   \<and> js_length (product_title_variants (generateListing sample_listing_input Rejected)) = Some 3
   \<and> js_length (full_description_variants (generateListing sample_listing_input Rejected)) = Some 2
   \<and> js_length (bullet_point_variants (generateListing sample_listing_input Rejected)) = Some 2"
  by code_simp

subsection \<open>Review analysis output\<close>

text \<open>
  Claim C3, as amended. \<^verbatim>\<open>analyzeReviews\<close> catches whatever its \<^verbatim>\<open>try\<close> block raises:
  when the request fails or normalizing the payload raises (a \<^verbatim>\<open>TypeError\<close> on a value
  of unexpected type) it returns the fallback, otherwise it returns the normalized
  payload. In the normalized payload each of \<^verbatim>\<open>top_pain_points\<close>,
  \<^verbatim>\<open>top_positive_features\<close> and \<^verbatim>\<open>competitive_gaps\<close> is empty when its raw value is
  absent or falsy and has one entry for each element when its raw value is an array (no
  other raw value lets normalization succeed); \<^verbatim>\<open>actionable_recommendations\<close> is the
  single-entry default when its raw value is absent or falsy and the raw value unchanged
  when that is truthy. In every result \<^verbatim>\<open>actionable_recommendations\<close> is a truthy
  value, so neither absent nor \<^verbatim>\<open>null\<close>, and it is a sequence, possibly empty, except
  when normalization succeeds on a payload whose \<^verbatim>\<open>actionable_recommendations\<close> is
  truthy and not a sequence.
\<close>

theorem review_analysis_output_sequences:
  "((\<forall>result r. fetch_json out = Inr result \<longrightarrow> normalizeReviewAnalysis result \<noteq> Inr r) \<longrightarrow>
      analyzeReviews reviews competitor out = analyzeReviews_fallback)
   \<and> (fetch_json out = Inr result \<and> normalizeReviewAnalysis result = Inr r \<longrightarrow>
        analyzeReviews reviews competitor out = r
        \<and> (absent_or_falsy (raw_field result ''top_pain_points'') \<longrightarrow> top_pain_points r = [])
        \<and> (\<forall>xs. raw_field result ''top_pain_points'' = Some (JArr xs) \<longrightarrow>
              length (top_pain_points r) = length xs)
        \<and> \<not> truthy_non_sequence (raw_field result ''top_pain_points'')
        \<and> (absent_or_falsy (raw_field result ''top_positive_features'') \<longrightarrow>
              top_positive_features r = [])
        \<and> (\<forall>xs. raw_field result ''top_positive_features'' = Some (JArr xs) \<longrightarrow>
              length (top_positive_features r) = length xs)
        \<and> \<not> truthy_non_sequence (raw_field result ''top_positive_features'')
        \<and> (absent_or_falsy (raw_field result ''competitive_gaps'') \<longrightarrow> competitive_gaps r = [])
        \<and> (\<forall>xs. raw_field result ''competitive_gaps'' = Some (JArr xs) \<longrightarrow>
              length (competitive_gaps r) = length xs)
        \<and> \<not> truthy_non_sequence (raw_field result ''competitive_gaps'')
        \<and> (absent_or_falsy (raw_field result ''actionable_recommendations'') \<longrightarrow>
              actionable_recommendations r =
                JArr [JStr ''No specific recommendations available''])
        \<and> (\<forall>v. raw_field result ''actionable_recommendations'' = Some v \<and> truthy v \<longrightarrow>
              actionable_recommendations r = v))
   \<and> truthy (actionable_recommendations (analyzeReviews reviews competitor out))
   \<and> actionable_recommendations (analyzeReviews reviews competitor out) \<noteq> JNull
   \<and> (is_sequence (actionable_recommendations (analyzeReviews reviews competitor out)) \<longleftrightarrow>
        \<not> (\<exists>result r. fetch_json out = Inr result \<and> normalizeReviewAnalysis result = Inr r
               \<and> truthy_non_sequence (raw_field result ''actionable_recommendations'')))"
  (is "?caught \<and> (?ok \<longrightarrow> ?normalized) \<and> ?truthy \<and> ?not_null \<and> ?sequence")
proof -
  have 1: ?caught
    using analyzeReviews_caught by blast
  have 2: "?ok \<longrightarrow> ?normalized"
  proof
    assume a: ?ok
    then have n: "normalizeReviewAnalysis result = Inr r" by blast
    have s: "analyzeReviews reviews competitor out = r"
      using a analyzeReviews_success by blast
    have d: "absent_or_falsy (raw_field result ''actionable_recommendations'') \<longrightarrow>
              actionable_recommendations r =
                JArr [JStr ''No specific recommendations available'']"
      using normalizeReviewAnalysis_Inr(4) [OF n]
      by (simp add: js_or_falsy default_actionable_recommendations_def)
    have p: "\<forall>v. raw_field result ''actionable_recommendations'' = Some v \<and> truthy v \<longrightarrow>
              actionable_recommendations r = v"
      using normalizeReviewAnalysis_Inr(4) [OF n] by simp
    show ?normalized
      by (intro conjI s d p
          mapped_field [OF normalizeReviewAnalysis_Inr(1) [OF n]]
          mapped_field [OF normalizeReviewAnalysis_Inr(2) [OF n]]
          mapped_field [OF normalizeReviewAnalysis_Inr(3) [OF n]])
  qed
  have t: ?truthy
    using analyzeReviews_cases [of reviews competitor out]
    by (auto simp: fallback_actionable_sequence normalizeReviewAnalysis_Inr(4)
        js_or_is_truthy default_actionable_sequence)
  then have 3: ?not_null
    by (rule truthy_not_null)
  have 4: ?sequence
  proof (cases "\<exists>result r. fetch_json out = Inr result \<and> normalizeReviewAnalysis result = Inr r")
    case True
    then obtain result r where f: "fetch_json out = Inr result"
      and n: "normalizeReviewAnalysis result = Inr r"
      by blast
    have "analyzeReviews reviews competitor out = r"
      using f n by (rule analyzeReviews_success)
    then have "is_sequence (actionable_recommendations (analyzeReviews reviews competitor out))
        \<longleftrightarrow> \<not> truthy_non_sequence (raw_field result ''actionable_recommendations'')"
      using normalizeReviewAnalysis_Inr(4) [OF n]
      by (simp add: is_sequence_js_or_iff default_actionable_sequence)
    with f n show ?thesis by auto
  next
    case False
    then have "analyzeReviews reviews competitor out = analyzeReviews_fallback"
      using analyzeReviews_caught [of out reviews competitor] by blast
    with False show ?thesis by (auto simp: fallback_actionable_sequence)
  qed
  from 1 2 t 3 4 show ?thesis by (intro conjI)
qed

theorem review_analysis_output_sequences_witness:
  "normalizeReviewAnalysis sample_review_payload = Inr sample_review_result
   \<and> analyzeReviews ''Great product'' [] (Resolved (ok_response sample_review_payload))
       = sample_review_result
   \<and> length (top_pain_points sample_review_result) = 2
   \<and> top_positive_features sample_review_result = []
   \<and> actionable_recommendations sample_review_result = JArr []
   \<and> analyzeReviews ''Great product'' []
        (Resolved (ok_response (JObj [(''top_pain_points'', JNum 5)])))
       = analyzeReviews_fallback"
proof -
  have n: "normalizeReviewAnalysis sample_review_payload = Inr sample_review_result"
    unfolding sample_review_payload_def sample_review_result_def by code_simp
  have f: "fetch_json (Resolved (ok_response sample_review_payload)) = Inr sample_review_payload"
    by (rule fetch_json_ok)
  have r: "raw_field sample_review_payload ''top_pain_points''
             = Some (JArr [JObj [(''issue'', JStr ''late delivery'')], JObj []])"
          "absent_or_falsy (raw_field sample_review_payload ''top_positive_features'')"
          "raw_field sample_review_payload ''actionable_recommendations'' = Some (JArr [])"
    by (simp_all add: raw_field_def sample_review_payload_def absent_or_falsy_def)
  note ok = review_analysis_output_sequences
    [where out = "Resolved (ok_response sample_review_payload)"
       and result = sample_review_payload and r = sample_review_result
       and reviews = "''Great product''" and competitor = "[]",
     THEN conjunct2, THEN conjunct1]
  from ok f n r have a:
    "analyzeReviews ''Great product'' [] (Resolved (ok_response sample_review_payload))
       = sample_review_result
     \<and> length (top_pain_points sample_review_result) = 2
     \<and> top_positive_features sample_review_result = []
     \<and> actionable_recommendations sample_review_result = JArr []"
    by simp
  have b: "\<forall>result r.
      fetch_json (Resolved (ok_response (JObj [(''top_pain_points'', JNum 5)]))) = Inr result \<longrightarrow>
      normalizeReviewAnalysis result \<noteq> Inr r"
    by (simp add: fetch_json_ok normalizeReviewAnalysis_def bindE_def toSentiment_def
        toLowerCase_def trim_def)
  note caught = review_analysis_output_sequences
    [where out = "Resolved (ok_response (JObj [(''top_pain_points'', JNum 5)]))"
       and reviews = "''Great product''" and competitor = "[]", THEN conjunct1]
  from caught b have c: "analyzeReviews ''Great product'' []
        (Resolved (ok_response (JObj [(''top_pain_points'', JNum 5)])))
       = analyzeReviews_fallback"
    by blast
  from n a c show ?thesis by blast
qed

text \<open>
  The claim as stated fails: a payload whose \<^verbatim>\<open>actionable_recommendations\<close> is a
  non-empty string comes back with that string in the field.
\<close>

theorem review_analysis_output_sequences_counterexample:
  "actionable_recommendations
     (analyzeReviews ''Great product'' []
        (Resolved (ok_response (JObj [(''actionable_recommendations'', JStr ''Ship faster'')]))))
     = JStr ''Ship faster''
   \<and> \<not> is_sequence (actionable_recommendations
     (analyzeReviews ''Great product'' []
        (Resolved (ok_response (JObj [(''actionable_recommendations'', JStr ''Ship faster'')])))))"
  by code_simp

text \<open>Normalization itself can raise; the enclosing \<^verbatim>\<open>try\<close> catches it.\<close>

lemma normalizeReviewAnalysis_raises:
  "normalizeReviewAnalysis (JObj [(''overall_sentiment'', JNum 5)]) = Inl TypeError"
  "normalizeReviewAnalysis JNull = Inl TypeError"
  "normalizeReviewAnalysis (JObj [(''top_pain_points'', JArr [JNull])]) = Inl TypeError"
  by code_simp+

subsection \<open>Defaults of the sequence fields\<close>

text \<open>
  Claim C4, as amended. Take a request that succeeds with a parsed body. If normalizing
  the body does not raise, the operation returns the normalized body, and in it a
  sequence field whose raw value is absent or falsy (\<^verbatim>\<open>null\<close>, \<^verbatim>\<open>false\<close>, \<^verbatim>\<open>0\<close>, the
  empty string) holds the field's default: the empty sequence for the fields that are
  mapped element by element (\<^verbatim>\<open>top_pain_points\<close>, \<^verbatim>\<open>top_positive_features\<close>,
  \<^verbatim>\<open>competitive_gaps\<close>, \<^verbatim>\<open>key_factors\<close>), the single placeholder entry for
  \<^verbatim>\<open>actionable_recommendations\<close>, three entries for \<^verbatim>\<open>recommended_actions\<close>, and for
  the listing fields their templated defaults of 3 titles, 2 bullet lists,
  2 descriptions, 5 primary and 6 secondary keywords; a truthy raw value of one of the
  fields that are not mapped is passed through unchanged, sequence or not. If
  normalizing the body raises, the operation returns its fallback and nothing of the
  body: that is so whenever a mapped field is truthy and not a sequence, and for a
  listing exactly when the body is \<^verbatim>\<open>null\<close>.
\<close>

theorem sequence_field_defaults:
  assumes "fetch_json out = Inr result"
  shows "((normalizeReviewAnalysis result = Inr ra \<longrightarrow>
        analyzeReviews reviews competitor out = ra
        \<and> (absent_or_falsy (raw_field result ''top_pain_points'') \<longrightarrow>
             top_pain_points (analyzeReviews reviews competitor out) = [])
        \<and> (absent_or_falsy (raw_field result ''top_positive_features'') \<longrightarrow>
             top_positive_features (analyzeReviews reviews competitor out) = [])
        \<and> (absent_or_falsy (raw_field result ''competitive_gaps'') \<longrightarrow>
             competitive_gaps (analyzeReviews reviews competitor out) = [])
        \<and> (absent_or_falsy (raw_field result ''actionable_recommendations'') \<longrightarrow>
             actionable_recommendations (analyzeReviews reviews competitor out) =
               JArr [JStr ''No specific recommendations available''])
        \<and> (\<forall>v. raw_field result ''actionable_recommendations'' = Some v \<and> truthy v \<longrightarrow>
             actionable_recommendations (analyzeReviews reviews competitor out) = v))
      \<and> ((\<forall>r. normalizeReviewAnalysis result \<noteq> Inr r) \<longrightarrow>
           analyzeReviews reviews competitor out = analyzeReviews_fallback)
      \<and> (truthy_non_sequence (raw_field result ''top_pain_points'')
           \<or> truthy_non_sequence (raw_field result ''top_positive_features'')
           \<or> truthy_non_sequence (raw_field result ''competitive_gaps'') \<longrightarrow>
         analyzeReviews reviews competitor out = analyzeReviews_fallback))
   \<and> ((result \<noteq> JNull \<longrightarrow>
        (absent_or_falsy (raw_field result ''product_title_variants'') \<longrightarrow>
           product_title_variants (generateListing li out) = default_product_title_variants li
           \<and> js_length (product_title_variants (generateListing li out)) = Some 3)
        \<and> (absent_or_falsy (raw_field result ''bullet_point_variants'') \<longrightarrow>
             bullet_point_variants (generateListing li out) = default_bullet_point_variants
             \<and> js_length (bullet_point_variants (generateListing li out)) = Some 2)
        \<and> (absent_or_falsy (raw_field result ''full_description_variants'') \<longrightarrow>
             full_description_variants (generateListing li out)
               = default_full_description_variants li
             \<and> js_length (full_description_variants (generateListing li out)) = Some 2)
        \<and> (absent_or_falsy (raw_field result ''primary_keywords'') \<longrightarrow>
             primary_keywords (generateListing li out) = default_primary_keywords li
             \<and> js_length (primary_keywords (generateListing li out)) = Some 5)
        \<and> (absent_or_falsy (raw_field result ''secondary_keywords'') \<longrightarrow>
             secondary_keywords (generateListing li out) = default_secondary_keywords
             \<and> js_length (secondary_keywords (generateListing li out)) = Some 6)
        \<and> (\<forall>v. raw_field result ''product_title_variants'' = Some v \<and> truthy v \<longrightarrow>
             product_title_variants (generateListing li out) = v)
        \<and> (\<forall>v. raw_field result ''bullet_point_variants'' = Some v \<and> truthy v \<longrightarrow>
             bullet_point_variants (generateListing li out) = v)
        \<and> (\<forall>v. raw_field result ''full_description_variants'' = Some v \<and> truthy v \<longrightarrow>
             full_description_variants (generateListing li out) = v)
        \<and> (\<forall>v. raw_field result ''primary_keywords'' = Some v \<and> truthy v \<longrightarrow>
             primary_keywords (generateListing li out) = v)
        \<and> (\<forall>v. raw_field result ''secondary_keywords'' = Some v \<and> truthy v \<longrightarrow>
             secondary_keywords (generateListing li out) = v))
      \<and> (result = JNull \<longrightarrow> generateListing li out = generateListing_fallback li))
   \<and> ((normalizePrediction result = Inr rp \<longrightarrow>
        explainPrediction pin out = rp
        \<and> (absent_or_falsy (raw_field result ''key_factors'') \<longrightarrow>
             key_factors (explainPrediction pin out) = [])
        \<and> (absent_or_falsy (raw_field result ''recommended_actions'') \<longrightarrow>
             recommended_actions (explainPrediction pin out) = default_recommended_actions
             \<and> js_length (recommended_actions (explainPrediction pin out)) = Some 3)
        \<and> (\<forall>v. raw_field result ''recommended_actions'' = Some v \<and> truthy v \<longrightarrow>
             recommended_actions (explainPrediction pin out) = v))
      \<and> ((\<forall>r. normalizePrediction result \<noteq> Inr r) \<longrightarrow>
           explainPrediction pin out = explainPrediction_fallback)
      \<and> (truthy_non_sequence (raw_field result ''key_factors'') \<longrightarrow>
           explainPrediction pin out = explainPrediction_fallback))"
  (is "?analysis \<and> ((?not_null \<longrightarrow> ?listing) \<and> (?null \<longrightarrow> ?listing_caught)) \<and> ?prediction")
proof -
  have ac: "(\<forall>r. normalizeReviewAnalysis result \<noteq> Inr r) \<longrightarrow>
        analyzeReviews reviews competitor out = analyzeReviews_fallback"
    using assms analyzeReviews_caught [of out reviews competitor] by auto
  have as: "normalizeReviewAnalysis result = Inr ra \<longrightarrow>
      analyzeReviews reviews competitor out = ra"
    using assms analyzeReviews_success by blast
  have a: ?analysis
    using ac as review_analysis_defaults [of result ra]
      normalizeReviewAnalysis_Inr(4) [of result ra] review_analysis_non_sequence [of result]
    by (auto simp: default_actionable_recommendations_def)
  have l: "?not_null \<longrightarrow> ?listing"
  proof
    assume ?not_null
    with assms have n: "normalizeListing li result = Inr (generateListing li out)"
      by (rule generateListing_success)
    show ?listing
      using normalizeListing_Inr [OF n] by (simp add: js_or_falsy default_lengths)
  qed
  have lc: "?null \<longrightarrow> ?listing_caught"
    using assms generateListing_null by blast
  have pc: "(\<forall>r. normalizePrediction result \<noteq> Inr r) \<longrightarrow>
        explainPrediction pin out = explainPrediction_fallback"
    using assms explainPrediction_caught by blast
  have ps: "normalizePrediction result = Inr rp \<longrightarrow> explainPrediction pin out = rp"
    using assms explainPrediction_success by blast
  have p: ?prediction
    using pc ps prediction_defaults [of result rp] normalizePrediction_Inr(2) [of result rp]
      prediction_non_sequence [of result]
    by auto
  show ?thesis
    by (rule conjI [OF a conjI [OF conjI [OF l lc] p]])
qed

theorem sequence_field_defaults_witness:
  "fetch_json (Resolved (ok_response (JObj [(''top_pain_points'', JNull)])))
     = Inr (JObj [(''top_pain_points'', JNull)])
   \<and> top_pain_points (analyzeReviews ''Great product'' []
        (Resolved (ok_response (JObj [(''top_pain_points'', JNull)])))) = []
   \<and> actionable_recommendations (analyzeReviews ''Great product'' []
        (Resolved (ok_response (JObj [(''top_pain_points'', JNull)]))))
       = JArr [JStr ''No specific recommendations available'']
   \<and> analyzeReviews ''Great product'' []
        (Resolved (ok_response (JObj [(''top_pain_points'', JStr ''none'')])))
       = analyzeReviews_fallback
   \<and> js_length (product_title_variants
        (generateListing sample_listing_input (Resolved (ok_response (JObj []))))) = Some 3
   \<and> secondary_keywords (generateListing sample_listing_input
        (Resolved (ok_response (JObj [(''secondary_keywords'', JStr ''cheap'')]))))
       = JStr ''cheap''
   \<and> generateListing sample_listing_input (Resolved (ok_response JNull))
       = generateListing_fallback sample_listing_input
   \<and> key_factors (explainPrediction sample_prediction_input
        (Resolved (ok_response (JObj [])))) = []
   \<and> js_length (recommended_actions (explainPrediction sample_prediction_input
        (Resolved (ok_response (JObj []))))) = Some 3
   \<and> explainPrediction sample_prediction_input
        (Resolved (ok_response (JObj [(''key_factors'', JStr ''none'')])))
       = explainPrediction_fallback"
proof -
  let ?ra = "\<lparr> overall_sentiment = ''neutral'', top_pain_points = [],
             top_positive_features = [], competitive_gaps = [],
             actionable_recommendations =
               JArr [JStr ''No specific recommendations available''] \<rparr>"
  let ?rp = "\<lparr> prediction_summary =
               JStr ''Model analysis suggests favorable market conditions.'',
             key_factors = [], recommended_actions = default_recommended_actions,
             confidence_level = ''medium'' \<rparr>"
  have f0: "fetch_json (Resolved (ok_response (JObj [(''top_pain_points'', JNull)])))
     = Inr (JObj [(''top_pain_points'', JNull)])"
    by (rule fetch_json_ok)
  have n1: "normalizeReviewAnalysis (JObj [(''top_pain_points'', JNull)]) = Inr ?ra"
    by code_simp
  have r1: "absent_or_falsy (raw_field (JObj [(''top_pain_points'', JNull)]) ''top_pain_points'')"
    "absent_or_falsy
       (raw_field (JObj [(''top_pain_points'', JNull)]) ''actionable_recommendations'')"
    by (simp_all add: raw_field_def absent_or_falsy_def)
  note a1 = sequence_field_defaults
    [OF fetch_json_ok [of "JObj [(''top_pain_points'', JNull)]"], where ra = ?ra
       and reviews = "''Great product''" and competitor = "[]",
     THEN conjunct1, THEN conjunct1]
  from a1 n1 r1 have 1:
    "top_pain_points (analyzeReviews ''Great product'' []
        (Resolved (ok_response (JObj [(''top_pain_points'', JNull)])))) = []
     \<and> actionable_recommendations (analyzeReviews ''Great product'' []
        (Resolved (ok_response (JObj [(''top_pain_points'', JNull)]))))
       = JArr [JStr ''No specific recommendations available'']"
    by blast
  have r2: "truthy_non_sequence
      (raw_field (JObj [(''top_pain_points'', JStr ''none'')]) ''top_pain_points'')"
    by (simp add: raw_field_def truthy_non_sequence_def)
  note a2 = sequence_field_defaults
    [OF fetch_json_ok [of "JObj [(''top_pain_points'', JStr ''none'')]"], where reviews = "''Great product''" and competitor = "[]",
     THEN conjunct1, THEN conjunct2, THEN conjunct2]
  from a2 r2 have 2: "analyzeReviews ''Great product'' []
        (Resolved (ok_response (JObj [(''top_pain_points'', JStr ''none'')])))
       = analyzeReviews_fallback"
    by blast
  have r3: "JObj [] \<noteq> JNull"
    "absent_or_falsy (raw_field (JObj []) ''product_title_variants'')"
    by (simp_all add: raw_field_def absent_or_falsy_def)
  note a3 = sequence_field_defaults
    [OF fetch_json_ok [of "JObj []"], where li = sample_listing_input,
     THEN conjunct2, THEN conjunct1, THEN conjunct1]
  from a3 r3 have 3: "js_length (product_title_variants
        (generateListing sample_listing_input (Resolved (ok_response (JObj []))))) = Some 3"
    by blast
  have r4: "JObj [(''secondary_keywords'', JStr ''cheap'')] \<noteq> JNull"
    "raw_field (JObj [(''secondary_keywords'', JStr ''cheap'')]) ''secondary_keywords''
       = Some (JStr ''cheap'')"
    "truthy (JStr ''cheap'')"
    by (simp_all add: raw_field_def)
  note a4 = sequence_field_defaults
    [OF fetch_json_ok [of "JObj [(''secondary_keywords'', JStr ''cheap'')]"], where li = sample_listing_input,
     THEN conjunct2, THEN conjunct1, THEN conjunct1]
  from a4 r4 have 4: "secondary_keywords (generateListing sample_listing_input
        (Resolved (ok_response (JObj [(''secondary_keywords'', JStr ''cheap'')]))))
       = JStr ''cheap''"
    by blast
  note a5 = sequence_field_defaults
    [OF fetch_json_ok [of JNull], where li = sample_listing_input,
     THEN conjunct2, THEN conjunct1, THEN conjunct2]
  from a5 have 5: "generateListing sample_listing_input (Resolved (ok_response JNull))
       = generateListing_fallback sample_listing_input"
    by blast
  have n6: "normalizePrediction (JObj []) = Inr ?rp"
    by code_simp
  have r6: "absent_or_falsy (raw_field (JObj []) ''key_factors'')"
    "absent_or_falsy (raw_field (JObj []) ''recommended_actions'')"
    by (simp_all add: raw_field_def absent_or_falsy_def)
  note a6 = sequence_field_defaults
    [OF fetch_json_ok [of "JObj []"], where rp = ?rp and pin = sample_prediction_input,
     THEN conjunct2, THEN conjunct2, THEN conjunct1]
  from a6 n6 r6 have 6:
    "key_factors (explainPrediction sample_prediction_input
        (Resolved (ok_response (JObj [])))) = []
     \<and> js_length (recommended_actions (explainPrediction sample_prediction_input
        (Resolved (ok_response (JObj []))))) = Some 3"
    by blast
  have r7: "truthy_non_sequence (raw_field (JObj [(''key_factors'', JStr ''none'')]) ''key_factors'')"
    by (simp add: raw_field_def truthy_non_sequence_def)
  note a7 = sequence_field_defaults
    [OF fetch_json_ok [of "JObj [(''key_factors'', JStr ''none'')]"], where pin = sample_prediction_input,
     THEN conjunct2, THEN conjunct2, THEN conjunct2, THEN conjunct2]
  from a7 r7 have 7: "explainPrediction sample_prediction_input
        (Resolved (ok_response (JObj [(''key_factors'', JStr ''none'')])))
       = explainPrediction_fallback"
    by blast
  from f0 1 2 3 4 5 6 7 show ?thesis by blast
qed

text \<open>
  The claim as stated fails twice. A \<^verbatim>\<open>top_pain_points\<close> that is a non-empty string is
  not replaced by the empty sequence: \<^verbatim>\<open>map\<close> raises and \<^verbatim>\<open>analyzeReviews\<close> returns its
  fallback with two pain points. And an empty listing payload gets three default titles,
  not a single-element default.
\<close>

theorem sequence_field_defaults_counterexample:
  "length (top_pain_points (analyzeReviews ''Great product'' []
      (Resolved (ok_response (JObj [(''top_pain_points'', JStr ''none'')]))))) = 2
   \<and> js_length (product_title_variants (generateListing sample_listing_input
      (Resolved (ok_response (JObj []))))) = Some 3"
  by code_simp

subsection \<open>End-to-end review analysis\<close>

text \<open>
  Claim C9. When the backend answers the review analysis with a success status and the
  body \<^verbatim>\<open>{ "overall_sentiment": "POSITIVE", "top_pain_points": [] }\<close>, the result has
  \<^verbatim>\<open>overall_sentiment\<close> \<^verbatim>\<open>positive\<close>, no pain points, no competitive gaps (and no
  positive features), and the single recommendation
  \<^verbatim>\<open>No specific recommendations available\<close>.
\<close>

theorem end_to_end_review_analysis:
  assumes "resp_ok r"
    and "resp_json r = Some (JObj [(''overall_sentiment'', JStr ''POSITIVE''),
                                   (''top_pain_points'', JArr [])])"
  shows "analyzeReviews ''Great product but shipping is slow.'' [] (Resolved r) =
           \<lparr> overall_sentiment = ''positive'',
             top_pain_points = [],
             top_positive_features = [],
             competitive_gaps = [],
             actionable_recommendations =
               JArr [JStr ''No specific recommendations available''] \<rparr>"
proof -
  have "normalizeReviewAnalysis (JObj [(''overall_sentiment'', JStr ''POSITIVE''),
                                       (''top_pain_points'', JArr [])]) =
          Inr \<lparr> overall_sentiment = ''positive'',
                top_pain_points = [],
                top_positive_features = [],
                competitive_gaps = [],
                actionable_recommendations =
                  JArr [JStr ''No specific recommendations available''] \<rparr>"
    by code_simp
  then show ?thesis
    using assms by (simp add: analyzeReviews_def fetch_json_def bindE_def)
qed

theorem end_to_end_review_analysis_witness:
  "resp_ok (ok_response (JObj [(''overall_sentiment'', JStr ''POSITIVE''),
                               (''top_pain_points'', JArr [])]))
   \<and> overall_sentiment (analyzeReviews ''Great product but shipping is slow.'' []
        (Resolved (ok_response (JObj [(''overall_sentiment'', JStr ''POSITIVE''),
                                      (''top_pain_points'', JArr [])])))) = ''positive''
   \<and> actionable_recommendations (analyzeReviews ''Great product but shipping is slow.'' []
        (Resolved (ok_response (JObj [(''overall_sentiment'', JStr ''POSITIVE''),
                                      (''top_pain_points'', JArr [])]))))
      = JArr [JStr ''No specific recommendations available'']"
proof -
  have h: "resp_ok (ok_response (JObj [(''overall_sentiment'', JStr ''POSITIVE''),
                                       (''top_pain_points'', JArr [])]))"
          "resp_json (ok_response (JObj [(''overall_sentiment'', JStr ''POSITIVE''),
                                         (''top_pain_points'', JArr [])]))
             = Some (JObj [(''overall_sentiment'', JStr ''POSITIVE''),
                           (''top_pain_points'', JArr [])])"
    by (simp_all add: ok_response_def)
  from end_to_end_review_analysis [OF h] h(1) show ?thesis by simp
qed

subsection \<open>Submit handlers\<close>

lemma dropWhile_all: "list_all P s \<Longrightarrow> dropWhile P s = []"
  by (induction s) simp_all

lemma trim_all_whitespace: "list_all is_whitespace s \<Longrightarrow> trim s = []"
  by (simp add: trim_def dropWhile_all)

lemma trim_Nil: "trim [] = []"
  by (simp add: trim_def)

text \<open>
  Claim C8. In every mode, a submit while a required field of the mode is empty, or
  while the backend is not connected, issues no network call: nothing but \<^verbatim>\<open>error\<close>
  changes, so the view stays in the phase it was in (the input form), and \<^verbatim>\<open>error\<close>
  holds the validation message of the mode or the connectivity message. A listing
  with product name \<^verbatim>\<open>""\<close> and features \<^verbatim>\<open>"x"\<close> issues no call and gets the message
  that product name and features are required.
\<close>

theorem submit_gated:
  assumes "[] \<in> set (required_fields t a) \<or> \<not> bh_connected (backendHealth a)"
  shows "snd (submit t a) = None
       \<and> (fst (submit t a) = a\<lparr>error := Some (validation_message t)\<rparr>
          \<or> fst (submit t a) = a\<lparr>error := Some connectivity_message\<rparr>)
       \<and> ([] \<in> set (required_fields t a) \<longrightarrow>
            fst (submit t a) = a\<lparr>error := Some (validation_message t)\<rparr>)
       \<and> phase (fst (submit t a)) = phase a
       \<and> handleGenerateListing
           (a\<lparr>listingInput := (listingInput a)\<lparr>productName := [], features := ''x''\<rparr>\<rparr>) =
         (a\<lparr>listingInput := (listingInput a)\<lparr>productName := [], features := ''x''\<rparr>,
            error := Some ''Product Name and Features are required for copywriting.''\<rparr>, None)"
proof -
  have 1: "snd (submit t a) = None
       \<and> (fst (submit t a) = a\<lparr>error := Some (validation_message t)\<rparr>
          \<or> fst (submit t a) = a\<lparr>error := Some connectivity_message\<rparr>)
       \<and> ([] \<in> set (required_fields t a) \<longrightarrow>
            fst (submit t a) = a\<lparr>error := Some (validation_message t)\<rparr>)"
    using assms
    by (cases t)
       (auto simp: submit_def required_fields_def handleAnalyzeReviews_def
          handleGenerateListing_def handleExplainPrediction_def trim_Nil
          validation_message_def connectivity_message_def)
  then obtain m where m: "fst (submit t a) = a\<lparr>error := Some m\<rparr>" by blast
  have 2: "phase (fst (submit t a)) = phase a"
    by (cases "activeTab a") (simp_all add: m phase_def)
  have 3: "handleGenerateListing
           (a\<lparr>listingInput := (listingInput a)\<lparr>productName := [], features := ''x''\<rparr>\<rparr>) =
         (a\<lparr>listingInput := (listingInput a)\<lparr>productName := [], features := ''x''\<rparr>,
            error := Some ''Product Name and Features are required for copywriting.''\<rparr>, None)"
    by (simp add: handleGenerateListing_def)
  from 1 2 3 show ?thesis by blast
qed

theorem submit_gated_witness:
  "[] \<in> set (required_fields Listing
       (initial_App\<lparr>listingInput := (listingInput initial_App)\<lparr>features := ''x''\<rparr>,
                    backendHealth := \<lparr>bh_connected = True, bh_message = ConnectedMessage None\<rparr>\<rparr>))
   \<and> snd (submit Listing
       (initial_App\<lparr>listingInput := (listingInput initial_App)\<lparr>features := ''x''\<rparr>,
                    backendHealth := \<lparr>bh_connected = True, bh_message = ConnectedMessage None\<rparr>\<rparr>))
       = None
   \<and> error (fst (submit Listing
       (initial_App\<lparr>listingInput := (listingInput initial_App)\<lparr>features := ''x''\<rparr>,
                    backendHealth := \<lparr>bh_connected = True, bh_message = ConnectedMessage None\<rparr>\<rparr>)))
       = Some ''Product Name and Features are required for copywriting.''
   \<and> phase (fst (submit Listing
       (initial_App\<lparr>listingInput := (listingInput initial_App)\<lparr>features := ''x''\<rparr>,
                    backendHealth := \<lparr>bh_connected = True, bh_message = ConnectedMessage None\<rparr>\<rparr>)))
       = InputPhase"
proof -
  let ?a = "initial_App\<lparr>listingInput := (listingInput initial_App)\<lparr>features := ''x''\<rparr>,
              backendHealth := \<lparr>bh_connected = True, bh_message = ConnectedMessage None\<rparr>\<rparr>"
  have h: "[] \<in> set (required_fields Listing ?a)"
    by (simp add: required_fields_def initial_App_def)
  then have h': "[] \<in> set (required_fields Listing ?a) \<or> \<not> bh_connected (backendHealth ?a)"
    by blast
  have p: "phase ?a = InputPhase"
    by (simp add: phase_def initial_App_def)
  note g = submit_gated [OF h']
  from g have "snd (submit Listing ?a) = None" by blast
  moreover from g h have "fst (submit Listing ?a) = ?a\<lparr>error := Some (validation_message Listing)\<rparr>"
    by blast
  then have "error (fst (submit Listing ?a))
               = Some ''Product Name and Features are required for copywriting.''"
    by (simp add: validation_message_def)
  moreover from g p have "phase (fst (submit Listing ?a)) = InputPhase" by simp
  ultimately show ?thesis using h by blast
qed

text \<open>
  Claim C10. The modes do not validate alike. A \<^verbatim>\<open>productReviews\<close> text of white space
  only is refused by the review analysis, which trims it, and no call is issued. The
  listing and the prediction handlers test their required fields for the empty string
  only: a field of white space only is not empty, so it passes, and with the backend
  connected the call is issued.
\<close>

theorem whitespace_validation_differs:
  "(whitespace_only (productAReviews a) \<longrightarrow>
      handleAnalyzeReviews a =
        (a\<lparr>error := Some ''Provide product reviews to begin analysis.''\<rparr>, None))
   \<and> (bh_connected (backendHealth a) \<and> productName (listingInput a) \<noteq> []
        \<and> features (listingInput a) \<noteq> [] \<longrightarrow>
      snd (handleGenerateListing a) = Some (GenerateListingRequest (listingInput a)))
   \<and> (bh_connected (backendHealth a) \<and> modelOutput (predInput a) \<noteq> []
        \<and> inputFeatures (predInput a) \<noteq> [] \<longrightarrow>
      snd (handleExplainPrediction a) = Some (ExplainPredictionRequest (predInput a)))
   \<and> (whitespace_only s \<longrightarrow> s \<noteq> [] \<and> trim s = [])"
  by (auto simp: whitespace_only_def handleAnalyzeReviews_def handleGenerateListing_def
      handleExplainPrediction_def trim_all_whitespace)

theorem whitespace_validation_differs_witness:
  "whitespace_only ''   ''
   \<and> snd (handleAnalyzeReviews
       (initial_App\<lparr>productAReviews := ''   '',
          backendHealth := \<lparr>bh_connected = True, bh_message = ConnectedMessage None\<rparr>\<rparr>)) = None
   \<and> snd (handleGenerateListing
       (initial_App\<lparr>listingInput := (listingInput initial_App)
                       \<lparr>productName := ''   '', features := ''   ''\<rparr>,
          backendHealth := \<lparr>bh_connected = True, bh_message = ConnectedMessage None\<rparr>\<rparr>))
     = Some (GenerateListingRequest
         ((listingInput initial_App)\<lparr>productName := ''   '', features := ''   ''\<rparr>))
   \<and> snd (handleExplainPrediction
       (initial_App\<lparr>predInput := (predInput initial_App)
                       \<lparr>modelOutput := ''   '', inputFeatures := ''   ''\<rparr>,
          backendHealth := \<lparr>bh_connected = True, bh_message = ConnectedMessage None\<rparr>\<rparr>))
     = Some (ExplainPredictionRequest
         ((predInput initial_App)\<lparr>modelOutput := ''   '', inputFeatures := ''   ''\<rparr>))"
proof -
  have w: "whitespace_only ''   ''"
    by (simp add: whitespace_only_def is_whitespace_def)
  show ?thesis
    using w
      whitespace_validation_differs
        [of "initial_App\<lparr>productAReviews := ''   '',
          backendHealth := \<lparr>bh_connected = True, bh_message = ConnectedMessage None\<rparr>\<rparr>"]
      whitespace_validation_differs
        [of "initial_App\<lparr>listingInput := (listingInput initial_App)
                       \<lparr>productName := ''   '', features := ''   ''\<rparr>,
          backendHealth := \<lparr>bh_connected = True, bh_message = ConnectedMessage None\<rparr>\<rparr>"]
      whitespace_validation_differs
        [of "initial_App\<lparr>predInput := (predInput initial_App)
                       \<lparr>modelOutput := ''   '', inputFeatures := ''   ''\<rparr>,
          backendHealth := \<lparr>bh_connected = True, bh_message = ConnectedMessage None\<rparr>\<rparr>"]
    by simp
qed

subsection \<open>Connection monitor\<close>

lemma checkBackendHealth_message: "bh_message (checkBackendHealth out) \<noteq> CheckingMessage"
  by (simp add: checkBackendHealth_def split: sum.splits)

lemma checkBackendHealth_Rejected: "\<not> bh_connected (checkBackendHealth Rejected)"
  by (simp add: checkBackendHealth_def testBackendConnection_def bindE_def)

lemma run_all_probes_fail:
  assumes "\<not> bh_connected (checkBackendHealth o1)" "\<not> bh_connected (checkBackendHealth o2)"
    "\<not> bh_connected (checkBackendHealth o3)" "\<not> bh_connected (checkBackendHealth o4)"
  shows "run (all_probes_fail o1 o2 o3 o4) (mount initial_App) =
     Some \<lparr> app = initial_App\<lparr>backendHealth := checkBackendHealth o4, connectionRetries := 3\<rparr>,
            timers = [], probes = [], probes_issued = 4 \<rparr>"
  using assms
  by (simp add: all_probes_fail_def mount_def useEffect_run_def issue_probe_def initial_App_def
      probe_settled_def timer_fired_def Let_def)

lemma automatic_invariant_mount: "automatic_invariant (mount initial_App)"
  by (simp add: automatic_invariant_def mount_def useEffect_run_def issue_probe_def
      initial_App_def)

lemma automatic_invariant_step:
  assumes "automatic_invariant rt" and "e \<noteq> ManualRetry" and "step e rt = Some rt'"
  shows "automatic_invariant rt'"
proof (cases e)
  case (ProbeSettles i out)
  with assms show ?thesis
    by (auto simp: automatic_invariant_def probe_settled_def Let_def split: if_splits)
next
  case TimerFires
  with assms show ?thesis
    by (auto simp: automatic_invariant_def timer_fired_def useEffect_run_def issue_probe_def
        split: list.splits)
next
  case ManualRetry
  with assms show ?thesis by simp
qed

lemma automatic_invariant_run:
  assumes "ManualRetry \<notin> set es" and "automatic_invariant rt" and "run es rt = Some rt'"
  shows "automatic_invariant rt'"
  using assms
proof (induction es arbitrary: rt)
  case Nil
  then show ?case by simp
next
  case (Cons e es)
  from Cons.prems(3) obtain rt1 where s: "step e rt = Some rt1" and r: "run es rt1 = Some rt'"
    by (auto split: option.splits)
  from Cons.prems(1) have "e \<noteq> ManualRetry" "ManualRetry \<notin> set es" by auto
  with Cons.prems(2) s have "automatic_invariant rt1"
    using automatic_invariant_step by blast
  with Cons.IH \<open>ManualRetry \<notin> set es\<close> r show ?case by blast
qed

lemma automatic_probes_bounded:
  assumes "ManualRetry \<notin> set es" and "run es (mount initial_App) = Some rt"
  shows "probes_issued rt \<le> 4" and "connectionRetries (app rt) \<le> 3"
  using automatic_invariant_run [OF assms(1) automatic_invariant_mount assms(2)]
  by (simp_all add: automatic_invariant_def)

text \<open>
  Claim C7, as amended. From the initial checking state the monitor issues the initial
  probe and, after each failed probe, sets a 3000 ms timer for a re-probe, three times
  at most. After these four consecutive failed probes, with no manual action, it is
  disconnected, the retry counter is 3, no probe is in flight and no timer is set: no
  further automatic probe can happen. A manual retry then resets the counter to 0 and
  issues a probe of its own. Whatever the outcomes of the probes, without a manual
  retry no more than four probes are ever issued.
\<close>

theorem monitor_bounded_retries:
  assumes "\<not> bh_connected (checkBackendHealth o1)" and "\<not> bh_connected (checkBackendHealth o2)"
    and "\<not> bh_connected (checkBackendHealth o3)" and "\<not> bh_connected (checkBackendHealth o4)"
  shows "\<exists>rt. run (all_probes_fail o1 o2 o3 o4) (mount initial_App) = Some rt
       \<and> \<not> bh_connected (backendHealth (app rt))
       \<and> bh_message (backendHealth (app rt)) \<noteq> CheckingMessage
       \<and> connectionRetries (app rt) = 3 \<and> probes_issued rt = 4
       \<and> timers rt = [] \<and> probes rt = []
       \<and> step TimerFires rt = None \<and> (\<forall>i out. step (ProbeSettles i out) rt = None)
       \<and> connectionRetries (app (refreshBackendConnection rt)) = 0
       \<and> ManualProbe \<in> set (probes (refreshBackendConnection rt))
       \<and> probes_issued rt < probes_issued (refreshBackendConnection rt)
       \<and> map_option timers (run (take 1 (all_probes_fail o1 o2 o3 o4)) (mount initial_App))
           = Some [3000]
       \<and> map_option timers (run (take 3 (all_probes_fail o1 o2 o3 o4)) (mount initial_App))
           = Some [3000]
       \<and> map_option timers (run (take 5 (all_probes_fail o1 o2 o3 o4)) (mount initial_App))
           = Some [3000]
       \<and> (\<forall>es rt'. ManualRetry \<notin> set es \<and> run es (mount initial_App) = Some rt' \<longrightarrow>
             probes_issued rt' \<le> 4)"
proof -
  let ?rt = "\<lparr> app = initial_App\<lparr>backendHealth := checkBackendHealth o4, connectionRetries := 3\<rparr>,
            timers = [], probes = [], probes_issued = 4 \<rparr>"
  have r: "run (all_probes_fail o1 o2 o3 o4) (mount initial_App) = Some ?rt"
    using assms by (rule run_all_probes_fail)
  have s: "\<not> bh_connected (backendHealth (app ?rt))"
          "bh_message (backendHealth (app ?rt)) \<noteq> CheckingMessage"
          "connectionRetries (app ?rt) = 3" "probes_issued ?rt = 4"
          "timers ?rt = []" "probes ?rt = []"
    using assms(4) by (simp_all add: checkBackendHealth_message)
  have e: "step TimerFires ?rt = None" "\<forall>i out. step (ProbeSettles i out) ?rt = None"
    by simp_all
  have m: "connectionRetries (app (refreshBackendConnection ?rt)) = 0"
          "ManualProbe \<in> set (probes (refreshBackendConnection ?rt))"
          "probes_issued ?rt < probes_issued (refreshBackendConnection ?rt)"
    by (simp_all add: refreshBackendConnection_def issue_probe_def useEffect_run_def Let_def)
  have t: "map_option timers (run (take 1 (all_probes_fail o1 o2 o3 o4)) (mount initial_App))
           = Some [3000]"
       "map_option timers (run (take 3 (all_probes_fail o1 o2 o3 o4)) (mount initial_App))
           = Some [3000]"
       "map_option timers (run (take 5 (all_probes_fail o1 o2 o3 o4)) (mount initial_App))
           = Some [3000]"
    using assms
    by (simp_all add: all_probes_fail_def mount_def useEffect_run_def issue_probe_def
        initial_App_def probe_settled_def timer_fired_def Let_def)
  have b: "\<forall>es rt'. ManualRetry \<notin> set es \<and> run es (mount initial_App) = Some rt' \<longrightarrow>
             probes_issued rt' \<le> 4"
    using automatic_probes_bounded(1) by blast
  from r s e m t b show ?thesis by blast
qed

theorem monitor_bounded_retries_witness:
  "\<not> bh_connected (checkBackendHealth Rejected)
   \<and> (\<exists>rt. run (all_probes_fail Rejected Rejected Rejected Rejected) (mount initial_App) = Some rt
         \<and> connectionRetries (app rt) = 3 \<and> probes_issued rt = 4
         \<and> timers rt = [] \<and> probes rt = [])"
  using checkBackendHealth_Rejected
    monitor_bounded_retries [OF checkBackendHealth_Rejected checkBackendHealth_Rejected
      checkBackendHealth_Rejected checkBackendHealth_Rejected]
  by blast

text \<open>
  The claim as stated fails. After three consecutive failed probes from the initial
  state a timer is still set, and when it fires a fourth probe is issued. And a manual
  retry after the fourth failed probe leaves two probes in flight, its own and the one
  of the effect, which runs again because the counter changed from 3 to 0.
\<close>

theorem monitor_bounded_retries_counterexample:
  "map_option timers (run three_failed_probes (mount initial_App)) = Some [3000]
   \<and> map_option probes_issued (run three_failed_probes (mount initial_App)) = Some 3
   \<and> map_option probes_issued (run (three_failed_probes @ [TimerFires]) (mount initial_App))
       = Some 4
   \<and> map_option probes_issued (run four_failed_probes (mount initial_App)) = Some 4
   \<and> map_option probes (run (four_failed_probes @ [ManualRetry]) (mount initial_App))
       = Some [ManualProbe, EffectProbe 0]
   \<and> map_option probes_issued (run (four_failed_probes @ [ManualRetry]) (mount initial_App))
       = Some 6"
  by code_simp

end
